theory Spec2Isabelle
  imports Main "HOL-Library.Sublist" "HOL-Library.Word"
begin

section \<open>Go runtime and standard-library primitives used by the sources\<close>

text \<open>
  Go strings are byte sequences; a \<^typ>\<open>string\<close> here is the list of the
  bytes of the UTF-8 text.  Literals outside ASCII are written as their bytes.
\<close>

datatype panic = IndexOutOfRange | DivideByZero

definition newline :: char where
  "newline = CHR 0x0A"

text \<open>\<^verbatim>\<open>strings.Contains(s, substr)\<close>.\<close>

fun strings_Contains :: "string \<Rightarrow> string \<Rightarrow> bool" where
  "strings_Contains [] substr = (substr = [])"
| "strings_Contains (c # cs) substr = (prefix substr (c # cs) \<or> strings_Contains cs substr)"

text \<open>\<^verbatim>\<open>strings.Split(s, sep)\<close> for a separator of one byte.\<close>

fun strings_Split :: "string \<Rightarrow> char \<Rightarrow> string list" where
  "strings_Split [] sep = [[]]"
| "strings_Split (c # cs) sep =
     (if c = sep then [] # strings_Split cs sep
      else (case strings_Split cs sep of
              [] \<Rightarrow> [[c]]
            | x # xs \<Rightarrow> (c # x) # xs))"

text \<open>
  \<^verbatim>\<open>strings.Repeat(s, count)\<close>.  Go panics on a negative count; the one call
  site is guarded by \<^verbatim>\<open>l < p.mask[i]+4\<close>, under which the count is positive.
\<close>

definition strings_Repeat :: "string \<Rightarrow> int \<Rightarrow> string" where
  "strings_Repeat s count = concat (replicate (nat count) s)"

text \<open>The verb \<^verbatim>\<open>%d\<close> of \<^verbatim>\<open>fmt.Sprintf\<close>.\<close>

definition digit_char :: "nat \<Rightarrow> char" where
  "digit_char d = ''0123456789'' ! d"

fun string_of_nat :: "nat \<Rightarrow> string" where
  "string_of_nat n =
     (if n < 10 then [digit_char n]
      else string_of_nat (n div 10) @ [digit_char (n mod 10)])"

declare string_of_nat.simps [simp del]

definition fmt_d :: "int \<Rightarrow> string" where
  "fmt_d n = (if n < 0 then ''-'' @ string_of_nat (nat (- n)) else string_of_nat (nat n))"

text \<open>Go's remainder \<^verbatim>\<open>a % b\<close> truncates towards zero.\<close>

definition go_rem :: "int \<Rightarrow> int \<Rightarrow> int" where
  "go_rem a b = sgn a * (\<bar>a\<bar> mod \<bar>b\<bar>)"


section \<open>The terminal renderer (\<^verbatim>\<open>TaskPrinter\<close>, the version with \<^verbatim>\<open>multiLineMsg\<close> and \<^verbatim>\<open>mask\<close>)\<close>

definition TaskWait :: int where "TaskWait = 0"
definition TaskRun :: int where "TaskRun = 1"
definition TaskDone :: int where "TaskDone = 2"
definition TaskFail :: int where "TaskFail = 3"

text \<open>
  Go's \<^verbatim>\<open>int\<close> is taken at its width of 64 bits: \<open>frame\<close> is a word, read as a
  signed number, and \<^verbatim>\<open>s.frame++\<close> wraps around.
\<close>

record Spinner =
  Frames :: "string list"
  FPS :: int
  frame :: "64 word"

definition Dot :: Spinner where
  "Dot = \<lparr> Frames =
      [[CHR 0xE2, CHR 0xA3, CHR 0xBE], [CHR 0xE2, CHR 0xA3, CHR 0xBD],
       [CHR 0xE2, CHR 0xA3, CHR 0xBB], [CHR 0xE2, CHR 0xA2, CHR 0xBF],
       [CHR 0xE2, CHR 0xA1, CHR 0xBF], [CHR 0xE2, CHR 0xA3, CHR 0x9F],
       [CHR 0xE2, CHR 0xA3, CHR 0xAF], [CHR 0xE2, CHR 0xA3, CHR 0xB7]],
     FPS = 100000000, frame = 0 \<rparr>"

definition Spinner_Update :: "Spinner \<Rightarrow> Spinner" where
  "Spinner_Update s = s\<lparr>frame := frame s + 1\<rparr>"

definition Spinner_String :: "Spinner \<Rightarrow> panic + string" where
  "Spinner_String s =
     (if length (Frames s) = 0 then Inl DivideByZero
      else (let r = go_rem (sint (frame s)) (int (length (Frames s)))
            in if r < 0 then Inl IndexOutOfRange else Inr (Frames s ! nat r)))"

text \<open>
  The fields of \<^verbatim>\<open>TaskInfo\<close> that the renderer reads (\<^verbatim>\<open>id\<close> is written
  \<open>id'\<close>).
\<close>

record TaskInfo =
  id' :: string
  retry :: int
  maxRetry :: int

record taskState =
  info :: TaskInfo
  stat :: int
  msg :: string

text \<open>
  The values sent over \<^verbatim>\<open>updateChan\<close>; \<open>otherMsg\<close> stands for a value of any
  other dynamic type (the \<^verbatim>\<open>default\<close> branch of the type switch).
\<close>

datatype message =
    quitMsg
  | spinnerMsg
  | statMsg string int
  | taskMsg string string
  | otherMsg

text \<open>
  The render state.  \<open>mask\<close> is \<open>None\<close> while the slice is \<^verbatim>\<open>nil\<close>.  The wait
  group, the ticker and the channel belong to the event loop and are not part of it.
\<close>

record TaskPrinter =
  Spinner :: Spinner
  quit :: bool
  idMap :: "string \<rightharpoonup> int"
  tasks :: "taskState list"
  multiLineMsg :: string
  mask :: "int list option"

definition NewTaskPrinter :: TaskPrinter where
  "NewTaskPrinter = \<lparr> Spinner = Dot, quit = False, idMap = Map.empty, tasks = [],
     multiLineMsg = [], mask = None \<rparr>"

definition msg_init :: string where
  "msg_init = [CHR 0xE5, CHR 0x88, CHR 0x9D, CHR 0xE5, CHR 0xA7, CHR 0x8B, CHR 0xE5, CHR 0x8C, CHR 0x96] @ ''...''"

definition SetTaskInfo :: "TaskPrinter \<Rightarrow> TaskInfo \<Rightarrow> TaskPrinter" where
  "SetTaskInfo p i =
     p\<lparr> idMap := (idMap p)(id' i \<mapsto> int (length (tasks p))),
        tasks := tasks p @ [\<lparr> info = i, stat = TaskWait, msg = msg_init \<rparr>] \<rparr>"

text \<open>
  \<^verbatim>\<open>Update\<close>: one event applied to the state.  Indexing \<^verbatim>\<open>p.tasks[i]\<close> out of
  range is a runtime panic.
\<close>

definition Update :: "TaskPrinter \<Rightarrow> message \<Rightarrow> panic + TaskPrinter" where
  "Update p m =
     (case m of
        quitMsg \<Rightarrow> Inr (p\<lparr>quit := True\<rparr>)
      | spinnerMsg \<Rightarrow> Inr (p\<lparr>Spinner := Spinner_Update (Spinner p)\<rparr>)
      | statMsg ident st \<Rightarrow>
          (case idMap p ident of
             None \<Rightarrow> Inr p
           | Some i \<Rightarrow>
               if 0 \<le> i \<and> i < int (length (tasks p))
               then Inr (p\<lparr>tasks := (tasks p)[nat i := (tasks p ! nat i)\<lparr>stat := st\<rparr>]\<rparr>)
               else Inl IndexOutOfRange)
      | taskMsg ident text \<Rightarrow>
          if strings_Contains text [newline]
          then Inr (p\<lparr>multiLineMsg := ''['' @ ident @ ''] '' @ text\<rparr>)
          else (case idMap p ident of
                  None \<Rightarrow> Inr p
                | Some i \<Rightarrow>
                    if 0 \<le> i \<and> i < int (length (tasks p))
                    then Inr (p\<lparr>tasks := (tasks p)[nat i := (tasks p ! nat i)\<lparr>msg := text\<rparr>]\<rparr>)
                    else Inl IndexOutOfRange)
      | otherMsg \<Rightarrow> Inr p)"

definition glyph_done :: string where
  "glyph_done = [CHR 0xE2, CHR 0x88, CHR 0x9A]"

definition retry_prefix :: string where
  "retry_prefix = '' ('' @ [CHR 0xE9, CHR 0x87, CHR 0x8D, CHR 0xE8, CHR 0xAF, CHR 0x95] @ '': ''"

text \<open>The body of the loop over \<^verbatim>\<open>p.tasks\<close> in \<^verbatim>\<open>Render\<close>: the text of one row.\<close>

definition render_row :: "Spinner \<Rightarrow> taskState \<Rightarrow> panic + string" where
  "render_row sp t =
     (case (if stat t = TaskWait then Inr ''-''
            else if stat t = TaskRun then Spinner_String sp
            else if stat t = TaskDone then Inr glyph_done
            else if stat t = TaskFail then Inr ''X''
            else Inr '' '') of
        Inl e \<Rightarrow> Inl e
      | Inr s0 \<Rightarrow>
          (let s1 = s0 @ '' ['' @ id' (info t) @ '']'';
               s2 = (if msg t \<noteq> [] then s1 @ '' '' @ msg t else s1);
               s3 = (if retry (info t) > 0
                     then s2 @ retry_prefix @ fmt_d (retry (info t)) @ ''/''
                             @ fmt_d (maxRetry (info t)) @ '')''
                     else s2)
           in Inr s3))"

fun render_tasks :: "Spinner \<Rightarrow> taskState list \<Rightarrow> string list \<Rightarrow> panic + string list" where
  "render_tasks sp [] strs = Inr strs"
| "render_tasks sp (t # ts) strs =
     (case render_row sp t of
        Inl e \<Rightarrow> Inl e
      | Inr s \<Rightarrow> render_tasks sp ts (strs @ [s]))"

text \<open>
  The first half of \<^verbatim>\<open>Render\<close>: the lines of the frame.  A pending multi-line
  message is split into its lines and put first, then the separator, then one row per
  task.
\<close>

definition frame_strs :: "TaskPrinter \<Rightarrow> panic + string list" where
  "frame_strs p =
     render_tasks (Spinner p) (tasks p)
       ((if multiLineMsg p \<noteq> [] then strings_Split (multiLineMsg p) newline else [])
          @ [''--------''])"

text \<open>\<^verbatim>\<open>fmt.Sprintf("\033[%dA", n)\<close>: the control sequence that moves the cursor up.\<close>

definition LineMoveUp :: "int \<Rightarrow> string" where
  "LineMoveUp n = [CHR 0x1B, CHR ''[''] @ fmt_d n @ ''A''"

text \<open>
  The second loop of \<^verbatim>\<open>Render\<close>, over the lines with their index; \<open>m\<close> is
  \<^verbatim>\<open>p.mask\<close> (empty when \<^verbatim>\<open>nil\<close>), \<open>sw\<close> is \<^verbatim>\<open>runewidth.StringWidth\<close>.
\<close>

fun render_lines ::
  "(string \<Rightarrow> int) \<Rightarrow> int list \<Rightarrow> nat \<Rightarrow> string list \<Rightarrow> string \<Rightarrow> int list \<Rightarrow> string \<times> int list" where
  "render_lines sw m i [] buf newMask = (buf, newMask)"
| "render_lines sw m i (s # ss) buf newMask =
     (let l = sw s;
          newMask1 = newMask[i := l];
          buf1 = buf @ s;
          buf2 = (if i < length m \<and> l < m ! i + 4
                  then buf1 @ strings_Repeat '' '' (m ! i - l + 4)
                  else buf1)
      in render_lines sw m (Suc i) ss (buf2 @ [newline]) newMask1)"

text \<open>
  \<^verbatim>\<open>Render\<close> returns the text handed to \<^verbatim>\<open>fmt.Print\<close> and the new state.
  The display-width function of the \<^verbatim>\<open>go-runewidth\<close> package is a parameter.
\<close>

definition Render :: "(string \<Rightarrow> int) \<Rightarrow> TaskPrinter \<Rightarrow> panic + (string \<times> TaskPrinter)" where
  "Render sw p =
     (case frame_strs p of
        Inl e \<Rightarrow> Inl e
      | Inr strs \<Rightarrow>
          (let buf0 = (if mask p \<noteq> None
                       then LineMoveUp (int (length (tasks p)) + 1)
                       else []);
               r = render_lines sw (case mask p of None \<Rightarrow> [] | Some m \<Rightarrow> m) 0 strs
                     buf0 (replicate (length strs) 0)
           in Inr (fst r, p\<lparr>multiLineMsg := [], mask := Some (snd r)\<rparr>)))"


text \<open>
  What one pass of the printing loop appends for line \<open>i\<close> with text \<open>s\<close>: the
  text, the padding when the guard holds, and the newline.
\<close>

definition emitted_line :: "(string \<Rightarrow> int) \<Rightarrow> int list \<Rightarrow> nat \<Rightarrow> string \<Rightarrow> string" where
  "emitted_line sw m i s =
     s @ (if i < length m \<and> sw s < m ! i + 4
          then replicate (nat (m ! i - sw s + 4)) (CHR '' '') else [])
       @ [newline]"

subsection \<open>A session with one task and one multi-line message\<close>

text \<open>
  The width function of the example counts bytes.  \<open>ex_p0\<close> is a fresh renderer with
  task \<open>f1\<close> registered, \<open>ex_p1\<close> the state after its first frame, \<open>ex_p2\<close> the state
  after task \<open>f1\<close> has sent the two-line message \<^verbatim>\<open>a\nb\<close>, \<open>ex_p3\<close> the state after
  the frame that showed it, \<open>ex_p5\<close> the state \<open>ex_p1\<close> after \<open>f1\<close> has sent the
  one-line message \<^verbatim>\<open>ok\<close>, and \<open>ex_p6\<close> the state \<open>ex_p3\<close> after the same message.
\<close>

definition ex_width :: "string \<Rightarrow> int" where
  "ex_width s = int (length s)"

definition ex_p0 :: TaskPrinter where
  "ex_p0 = SetTaskInfo NewTaskPrinter \<lparr> id' = ''f1'', retry = 0, maxRetry = 3 \<rparr>"

definition ex_p1 :: TaskPrinter where
  "ex_p1 = ex_p0\<lparr> mask := Some [8, 19] \<rparr>"

definition ex_p2 :: TaskPrinter where
  "ex_p2 = ex_p1\<lparr> multiLineMsg := ''[f1] a'' @ [newline] @ ''b'' \<rparr>"

definition ex_p3 :: TaskPrinter where
  "ex_p3 = ex_p1\<lparr> mask := Some [6, 1, 8, 19] \<rparr>"

definition ex_p5 :: TaskPrinter where
  "ex_p5 = ex_p1\<lparr> tasks :=
     [\<lparr> info = \<lparr> id' = ''f1'', retry = 0, maxRetry = 3 \<rparr>, stat = TaskWait, msg = ''ok'' \<rparr>] \<rparr>"

definition ex_p6 :: TaskPrinter where
  "ex_p6 = ex_p5\<lparr> mask := Some [6, 1, 8, 19] \<rparr>"

definition ex_row :: string where
  "ex_row = ''- [f1] '' @ msg_init"

definition ex_frame1 :: string where
  "ex_frame1 = ''--------'' @ [newline] @ ex_row @ [newline]"

definition ex_frame2 :: string where
  "ex_frame2 = [CHR 0x1B] @ ''[2A'' @ ''[f1] a'' @ replicate 6 (CHR '' '') @ [newline]
      @ ''b'' @ replicate 22 (CHR '' '') @ [newline]
      @ ''--------'' @ [newline] @ ex_row @ [newline]"

definition ex_frame3 :: string where
  "ex_frame3 = [CHR 0x1B] @ ''[2A'' @ ''--------'' @ replicate 2 (CHR '' '') @ [newline]
      @ ex_row @ [newline]"

definition ex_frame5 :: string where
  "ex_frame5 = [CHR 0x1B] @ ''[2A'' @ ''--------'' @ replicate 4 (CHR '' '') @ [newline]
      @ ''- [f1] ok'' @ replicate 14 (CHR '' '') @ [newline]"


section \<open>Properties of the renderer\<close>

lemmas ex_defs = ex_width_def ex_p0_def ex_p1_def ex_p2_def ex_p3_def ex_p5_def ex_p6_def ex_row_def
  ex_frame1_def ex_frame2_def ex_frame3_def ex_frame5_def

lemmas render_defs = Render_def frame_strs_def render_row_def SetTaskInfo_def NewTaskPrinter_def
  TaskWait_def TaskRun_def TaskDone_def TaskFail_def msg_init_def LineMoveUp_def fmt_d_def
  strings_Repeat_def newline_def digit_char_def Let_def

lemma strings_Repeat_space: "strings_Repeat '' '' n = replicate (nat n) (CHR '' '')"
  by (induction "nat n" arbitrary: n) (auto simp: strings_Repeat_def replicate_append_same)

lemma render_lines_fst:
  "fst (render_lines sw m i ss buf nm) =
     buf @ concat (map (\<lambda>j. emitted_line sw m (i + j) (ss ! j)) [0..<length ss])"
proof (induction ss arbitrary: i buf nm)
  case Nil
  then show ?case by simp
next
  case (Cons s ss)
  have shift: "map (\<lambda>j. emitted_line sw m (i + j) ((s # ss) ! j)) [0..<length (s # ss)] =
        emitted_line sw m i s # map (\<lambda>j. emitted_line sw m (Suc i + j) (ss ! j)) [0..<length ss]"
  proof -
    have "[0..<length (s # ss)] = 0 # map Suc [0..<length ss]"
      by (simp add: upt_conv_Cons map_Suc_upt del: upt_Suc)
    then show ?thesis by (simp add: o_def)
  qed
  show ?case
    unfolding shift
    by (simp add: Let_def Cons.IH emitted_line_def strings_Repeat_space)
qed

lemma render_lines_snd:
  "length nm = i + length ss \<Longrightarrow>
   snd (render_lines sw m i ss buf nm) = take i nm @ map sw ss"
proof (induction ss arbitrary: i buf nm)
  case Nil
  then show ?case by simp
next
  case (Cons s ss)
  have "take (Suc i) (nm[i := sw s]) = take i nm @ [sw s]"
    using Cons.prems by (simp add: take_Suc_conv_app_nth)
  then show ?case using Cons.prems
    by (simp add: Let_def Cons.IH)
qed

lemma render_tasks_length:
  "render_tasks sp ts strs = Inr out \<Longrightarrow> length out = length strs + length ts"
  by (induction ts arbitrary: strs) (auto split: sum.splits)

text \<open>
  A frame has the lines of the pending multi-line message, the separator, and one row
  per task; the new mask records the width of every one of them.
\<close>

lemma frame_strs_length:
  "frame_strs p = Inr strs \<Longrightarrow>
   length strs =
     (if multiLineMsg p \<noteq> [] then length (strings_Split (multiLineMsg p) newline) else 0)
       + 1 + length (tasks p)"
  by (auto simp: frame_strs_def dest: render_tasks_length)

lemma Render_buf:
  assumes "Render sw p = Inr (buf, p')"
  shows "\<exists>strs. frame_strs p = Inr strs \<and>
           buf = (if mask p \<noteq> None then LineMoveUp (int (length (tasks p)) + 1) else [])
                 @ concat (map (\<lambda>j. emitted_line sw (case mask p of None \<Rightarrow> [] | Some m \<Rightarrow> m) j
                                  (strs ! j)) [0..<length strs])
           \<and> p' = p\<lparr>multiLineMsg := [], mask := Some (map sw strs)\<rparr>"
  using assms
  by (auto simp: Render_def Let_def render_lines_fst render_lines_snd split: sum.splits)

lemma ex_run:
  "Render ex_width ex_p0 = Inr (ex_frame1, ex_p1)"
  "Update ex_p1 (taskMsg ''f1'' (''a'' @ [newline] @ ''b'')) = Inr ex_p2"
  "Render ex_width ex_p2 = Inr (ex_frame2, ex_p3)"
  "Render ex_width ex_p3 = Inr (ex_frame3, ex_p1)"
  "Update ex_p1 (taskMsg ''f1'' ''ok'') = Inr ex_p5"
  "Render ex_width ex_p5 = Inr (ex_frame5, ex_p5\<lparr> mask := Some [8, 9] \<rparr>)"
  by (simp_all add: ex_defs render_defs Update_def string_of_nat.simps)

text \<open>
  Claim C8, as the code has it.  On every redraw after the first (the mask is set), the
  text printed starts with the cursor-up sequence for \<^verbatim>\<open>len(p.tasks)+1\<close> lines, the
  height of the fixed table (the separator and one row per registered task), and the
  lines of the new frame follow it.  The lines of a multi-line message shown by the
  previous frame are not counted: they stay above the table.
\<close>

theorem Render_moves_up_table_height:
  assumes "Render sw p = Inr (buf, p')" and "mask p = Some m"
  shows "\<exists>strs. frame_strs p = Inr strs \<and>
           buf = LineMoveUp (int (length (tasks p)) + 1)
                 @ concat (map (\<lambda>j. emitted_line sw m j (strs ! j)) [0..<length strs])"
  using Render_buf [OF assms(1)] assms(2) by auto

theorem Render_moves_up_table_height_witness:
  "Render ex_width ex_p3 = Inr (ex_frame3, ex_p1) \<and> mask ex_p3 = Some [6, 1, 8, 19] \<and>
   (\<exists>strs. frame_strs ex_p3 = Inr strs \<and>
      ex_frame3 = LineMoveUp (int (length (tasks ex_p3)) + 1)
        @ concat (map (\<lambda>j. emitted_line ex_width [6, 1, 8, 19] j (strs ! j)) [0..<length strs]))"
proof -
  have r: "Render ex_width ex_p3 = Inr (ex_frame3, ex_p1)"
    by (rule ex_run)
  have m: "mask ex_p3 = Some [6, 1, 8, 19]"
    by (simp add: ex_defs)
  show ?thesis
    using r m Render_moves_up_table_height [OF r m] by simp
qed

text \<open>
  Claim C8 as stated fails.  The frame printed from \<open>ex_p2\<close> has four lines (two of the
  multi-line message, the separator, one row), and the mask it leaves has four entries;
  the next redraw moves the cursor up by two lines, not by four.
\<close>

theorem Render_previous_line_count_counterexample:
  "Render ex_width ex_p2 = Inr (ex_frame2, ex_p3) \<and>
   count_list ex_frame2 newline = 4 \<and>
   mask ex_p3 = Some [6, 1, 8, 19] \<and>
   Render ex_width ex_p3 = Inr (ex_frame3, ex_p1) \<and>
   prefix (LineMoveUp 2) ex_frame3 \<and> \<not> prefix (LineMoveUp 4) ex_frame3"
  by (simp add: ex_defs render_defs string_of_nat.simps)

text \<open>
  The padding is computed against the mask entry of the same index.  On a redraw after
  the first, if entry \<open>i\<close> of the mask is \<open>m ! i\<close> and line \<open>i\<close> of the new frame is
  narrower, the line emitted for \<open>i\<close> is the new text, then \<open>m ! i\<close> minus the new
  width plus four spaces, then the newline.  Entry \<open>i\<close> of the mask is the width of line
  \<open>i\<close> of the previous frame; it is the width of what the new line \<open>i\<close> overwrites on
  the screen only when the previous frame had no lines of a multi-line message.
\<close>

lemma Render_pads_against_mask_entry:
  assumes "Render sw p = Inr (buf, p')" and "mask p = Some m" and "frame_strs p = Inr strs"
    and "i < length strs" and "i < length m" and "sw (strs ! i) < m ! i"
  shows "\<exists>lines. buf = LineMoveUp (int (length (tasks p)) + 1) @ concat lines \<and>
           length lines = length strs \<and>
           lines ! i = strs ! i @ replicate (nat (m ! i - sw (strs ! i) + 4)) (CHR '' '') @ [newline] \<and>
           int (nat (m ! i - sw (strs ! i) + 4)) = m ! i - sw (strs ! i) + 4"
proof -
  let ?lines = "map (\<lambda>j. emitted_line sw m j (strs ! j)) [0..<length strs]"
  from Render_buf [OF assms(1)] assms(2,3)
  have "buf = LineMoveUp (int (length (tasks p)) + 1) @ concat ?lines"
    by auto
  moreover have "length ?lines = length strs"
    by simp
  moreover have "?lines ! i =
      strs ! i @ replicate (nat (m ! i - sw (strs ! i) + 4)) (CHR '' '') @ [newline]"
    using assms(4,5,6) by (simp add: emitted_line_def)
  moreover have "int (nat (m ! i - sw (strs ! i) + 4)) = m ! i - sw (strs ! i) + 4"
    using assms(6) by simp
  ultimately show ?thesis
    by blast
qed

lemma Render_pads_against_mask_entry_example:
  "Render ex_width ex_p5 = Inr (ex_frame5, ex_p5\<lparr> mask := Some [8, 9] \<rparr>) \<and>
   mask ex_p5 = Some [8, 19] \<and>
   frame_strs ex_p5 = Inr [''--------'', ''- [f1] ok''] \<and>
   ex_width ''- [f1] ok'' = 9 \<and>
   (\<exists>lines. ex_frame5 = LineMoveUp 2 @ concat lines \<and> length lines = 2 \<and>
      lines ! 1 = ''- [f1] ok'' @ replicate 14 (CHR '' '') @ [newline])"
proof -
  have r: "Render ex_width ex_p5 = Inr (ex_frame5, ex_p5\<lparr> mask := Some [8, 9] \<rparr>)"
    by (rule ex_run)
  have m: "mask ex_p5 = Some [8, 19]"
    by (simp add: ex_defs)
  have s: "frame_strs ex_p5 = Inr [''--------'', ''- [f1] ok'']"
    by (simp add: ex_defs render_defs)
  have t: "length (tasks ex_p5) = 1"
    by (simp add: ex_defs)
  show ?thesis
    using r m s t Render_pads_against_mask_entry [OF r m s, of 1]
    by (auto simp: ex_width_def)
qed

text \<open>
  Claim C9 fails in the code on the redraw that follows a frame with a multi-line
  message.  The session: task \<open>f1\<close> is registered and the first frame printed; \<open>f1\<close>
  sends the two-line message \<^verbatim>\<open>a\nb\<close> and the frame that shows it is printed, with
  the row of \<open>f1\<close>, of width 19, as its last line; \<open>f1\<close> sends \<^verbatim>\<open>ok\<close> and the next
  frame is printed.  That frame moves the cursor up by two lines and prints two lines,
  so its second line overwrites the row of \<open>f1\<close>.  The mask holds the widths of the four
  lines of the previous frame, \<open>[6, 1, 8, 19]\<close>, and the new row, of width 9, is
  compared with entry 1, the width of the message line \<^verbatim>\<open>b\<close>: the guard
  \<open>9 < 1 + 4\<close> fails and the row is emitted with no trailing space, where the claim
  asks for at least \<open>19 - 9\<close>.
\<close>

theorem Render_after_multi_line_frame_row_not_padded:
  "Render ex_width ex_p0 = Inr (ex_frame1, ex_p1) \<and>
   Update ex_p1 (taskMsg ''f1'' (''a'' @ [newline] @ ''b'')) = Inr ex_p2 \<and>
   Render ex_width ex_p2 = Inr (ex_frame2, ex_p3) \<and>
   ex_frame2 = LineMoveUp 2 @ ''[f1] a'' @ replicate 6 (CHR '' '') @ [newline]
      @ ''b'' @ replicate 22 (CHR '' '') @ [newline]
      @ ''--------'' @ [newline] @ ex_row @ [newline] \<and>
   ex_width ex_row = 19 \<and>
   mask ex_p3 = Some [6, 1, 8, 19] \<and>
   Update ex_p3 (taskMsg ''f1'' ''ok'') = Inr ex_p6 \<and>
   ex_width ''- [f1] ok'' = 9 \<and>
   Render ex_width ex_p6 =
     Inr (LineMoveUp 2 @ ''--------'' @ replicate 2 (CHR '' '') @ [newline]
            @ ''- [f1] ok'' @ [newline],
          ex_p6\<lparr> mask := Some [8, 9] \<rparr>)"
  by (simp add: ex_defs render_defs Update_def string_of_nat.simps)

text \<open>
  Claim C10.  A status change, or a message of one line, for an id that the id-to-row
  map does not hold leaves the whole render state as it was.
\<close>

theorem Update_unregistered_id_unchanged:
  assumes "idMap p ident = None"
    and "ev = statMsg ident st \<or> (ev = taskMsg ident text \<and> \<not> strings_Contains text [newline])"
  shows "Update p ev = Inr p"
  using assms by (auto simp: Update_def)

theorem Update_unregistered_id_unchanged_witness:
  "idMap ex_p1 ''f2'' = None \<and>
   Update ex_p1 (statMsg ''f2'' TaskDone) = Inr ex_p1 \<and>
   \<not> strings_Contains ''50%'' [newline] \<and>
   Update ex_p1 (taskMsg ''f2'' ''50%'') = Inr ex_p1"
proof -
  have i: "idMap ex_p1 ''f2'' = None"
    by (simp add: ex_defs SetTaskInfo_def NewTaskPrinter_def)
  have n: "\<not> strings_Contains ''50%'' [newline]"
    by (simp add: newline_def)
  show ?thesis
    using i n
      Update_unregistered_id_unchanged [OF i, of "statMsg ''f2'' TaskDone" TaskDone]
      Update_unregistered_id_unchanged [OF i, of "taskMsg ''f2'' ''50%''" 0 "''50%''"]
    by simp
qed


section \<open>The upload task unit (\<^verbatim>\<open>UploadTaskUnit\<close>)\<close>

subsection \<open>Standard-library functions it calls\<close>

type_synonym byte = "8 word"

text \<open>\<^verbatim>\<open>path.Split\<close>: the path up to and with the last slash, and what follows it.\<close>

definition path_Split :: "string \<Rightarrow> string \<times> string" where
  "path_Split p =
     (let file = rev (takeWhile (\<lambda>c. c \<noteq> CHR ''/'') (rev p))
      in (take (length p - length file) p, file))"

text \<open>
  \<^verbatim>\<open>path.Clean\<close>, by its documented rules: slashes are merged, \<^verbatim>\<open>.\<close> elements
  dropped, an inner \<^verbatim>\<open>..\<close> removes the element before it, a \<^verbatim>\<open>..\<close> at the start
  of a rooted path is dropped, and the empty result is \<^verbatim>\<open>.\<close>.
\<close>

definition clean_step :: "bool \<Rightarrow> string list \<Rightarrow> string \<Rightarrow> string list" where
  "clean_step rooted stack c =
     (if c = ''..''
      then (if stack \<noteq> [] \<and> last stack \<noteq> ''..'' then butlast stack
            else if rooted then stack
            else stack @ [c])
      else stack @ [c])"

fun join_slash :: "string list \<Rightarrow> string" where
  "join_slash [] = []"
| "join_slash [c] = c"
| "join_slash (c # d # cs) = c @ ''/'' @ join_slash (d # cs)"

definition path_Clean :: "string \<Rightarrow> string" where
  "path_Clean p =
     (let rooted = (p \<noteq> [] \<and> hd p = CHR ''/'');
          comps = filter (\<lambda>c. c \<noteq> [] \<and> c \<noteq> ''.'') (strings_Split p (CHR ''/''));
          out = (if rooted then ''/'' else []) @ join_slash (foldl (clean_step rooted) [] comps)
      in if out = [] then ''.'' else out)"

text \<open>
  \<^verbatim>\<open>hex.DecodeString\<close>: the bytes decoded before the first error, and whether there
  was an error (a byte that is no hexadecimal digit, or an odd length).
\<close>

definition fromHexChar :: "char \<Rightarrow> nat option" where
  "fromHexChar c =
     (let n = (of_char c :: nat)
      in if 48 \<le> n \<and> n \<le> 57 then Some (n - 48)
         else if 97 \<le> n \<and> n \<le> 102 then Some (n - 87)
         else if 65 \<le> n \<and> n \<le> 70 then Some (n - 55)
         else None)"

fun hex_DecodeString :: "string \<Rightarrow> byte list \<times> bool" where
  "hex_DecodeString [] = ([], False)"
| "hex_DecodeString [p] = ([], True)"
| "hex_DecodeString (p # q # rest) =
     (case fromHexChar p of
        None \<Rightarrow> ([], True)
      | Some a \<Rightarrow>
          (case fromHexChar q of
             None \<Rightarrow> ([], True)
           | Some b \<Rightarrow>
               (let r = hex_DecodeString rest
                in (of_nat (16 * a + b) # fst r, snd r))))"

text \<open>\<^verbatim>\<open>hex.EncodeToString\<close>: two lower-case digits per byte.\<close>

definition hex_digit :: "nat \<Rightarrow> char" where
  "hex_digit d = ''0123456789abcdef'' ! d"

definition hex_EncodeToString :: "byte list \<Rightarrow> string" where
  "hex_EncodeToString bs = concat (map (\<lambda>b. [hex_digit (unat b div 16), hex_digit (unat b mod 16)]) bs)"


subsection \<open>Data\<close>

datatype StepUpload = StepUploadInit | StepUploadRapidUpload | StepUploadUpload

text \<open>
  \<^verbatim>\<open>checksum.LocalFileMeta\<close>, the identity of the local file, with the fields the
  unit reads.  A hash that is \<^verbatim>\<open>nil\<close> is \<open>None\<close>.
\<close>

record LocalFileMeta =
  Path :: string
  Length :: int
  SliceMD5 :: "byte list option"
  MD5 :: "byte list option"
  CRC32 :: "32 word"

text \<open>The bytes of a slice that may be \<^verbatim>\<open>nil\<close>.\<close>

definition slice_bytes :: "byte list option \<Rightarrow> byte list" where
  "slice_bytes b = (case b of None \<Rightarrow> [] | Some bs \<Rightarrow> bs)"

text \<open>
  Modelled from the spec: \<^verbatim>\<open>uploader.InstanceState\<close> is declared outside the
  sources at hand; it is the opaque per-block transfer progress of a resume checkpoint,
  kept here as the list of the blocks that are done.
\<close>

datatype InstanceState = InstanceState "int list"

text \<open>
  Modelled from the spec: the checkpoint store \<^verbatim>\<open>UploadingDatabase\<close> is declared
  outside the sources at hand.  The spec gives it four operations, find, upsert, delete
  and persist, over checkpoints keyed by the local file identity.  An entry holds the
  resume state, or none (the placeholder written after a failed rapid upload).
  \<open>UploadingList\<close> is the store in memory, \<open>saved\<close> what was persisted last.
\<close>

record UploadingDatabase =
  UploadingList :: "LocalFileMeta \<rightharpoonup> InstanceState option"
  saved :: "LocalFileMeta \<rightharpoonup> InstanceState option"

definition Search :: "UploadingDatabase \<Rightarrow> LocalFileMeta \<Rightarrow> InstanceState option" where
  "Search ud meta = (case UploadingList ud meta of None \<Rightarrow> None | Some st \<Rightarrow> st)"

definition UpdateUploading ::
  "UploadingDatabase \<Rightarrow> LocalFileMeta \<Rightarrow> InstanceState option \<Rightarrow> UploadingDatabase" where
  "UpdateUploading ud meta st = ud\<lparr> UploadingList := (UploadingList ud)(meta \<mapsto> st) \<rparr>"

definition Delete :: "UploadingDatabase \<Rightarrow> LocalFileMeta \<Rightarrow> UploadingDatabase" where
  "Delete ud meta = ud\<lparr> UploadingList := (UploadingList ud)(meta := None) \<rparr>"

definition Save :: "UploadingDatabase \<Rightarrow> UploadingDatabase" where
  "Save ud = ud\<lparr> saved := UploadingList ud \<rparr>"

text \<open>
  Modelled from the spec: the error taxonomy of package \<^verbatim>\<open>pcserror\<close> is declared
  outside the sources at hand.  A classified protocol error has a type (remote-server,
  network, or another kind), a remote error code, and the message of the underlying
  error.
\<close>

datatype ErrType = ErrTypeRemoteError | ErrTypeNetError | ErrTypeOther nat

record pcs_error =
  GetErrType :: ErrType
  GetRemoteErrCode :: int
  GetError :: string

text \<open>
  A Go \<^verbatim>\<open>error\<close> value: one that implements \<^verbatim>\<open>pcserror.Error\<close>, or any other
  error, known by its message.
\<close>

datatype go_error = PCSError pcs_error | errors_New string

text \<open>\<^verbatim>\<open>taskframework.TaskUnitRunResult\<close>, with the fields the unit sets.\<close>

record TaskUnitRunResult =
  Succeed :: bool
  NeedRetry :: bool
  ResultMessage :: string
  Err :: "go_error option"

definition new_result :: TaskUnitRunResult where
  "new_result = \<lparr> Succeed = False, NeedRetry = False, ResultMessage = [], Err = None \<rparr>"

text \<open>An entry of the remote directory listing (\<^verbatim>\<open>baidupcs.FileDirectory\<close>).\<close>

record FileDirectory =
  Filename :: string
  fd_MD5 :: string

text \<open>What the transfer reports to the status callback.\<close>

record Status =
  Uploaded :: int
  TotalSize :: int
  SpeedsPerSecond :: int
  TimeElapsed :: int

record MultiUploaderConfig =
  cfg_Parallel :: int
  cfg_BlockSize :: int
  cfg_MaxRate :: int
  cfg_Policy :: string

text \<open>
  The callbacks that \<^verbatim>\<open>muer.Execute()\<close> makes, in the order it makes them.  A
  status event carries the status, whether a receive from \<^verbatim>\<open>updateChan\<close> can
  proceed at that moment, and what \<^verbatim>\<open>muer.InstanceState()\<close> returns then.
\<close>

datatype uploader_event =
    UploadStatusEvent Status bool "InstanceState option"
  | UploadSuccess
  | UploadError go_error

text \<open>Arguments of a formatted print, and where a printed line went.\<close>

datatype fmt_arg = ArgString string | ArgError go_error | ArgDuration int

datatype out_line =
    Stdout string "fmt_arg list"
  | ToPrinter string "fmt_arg list"

text \<open>The calls that leave the unit, in order, with their arguments.\<close>

datatype ext_call =
    Call_OpenPath
  | Call_Close
  | Call_CacheFilesDirectoriesList string
  | Call_Sum
  | Call_RapidUpload string string string string int
  | Call_AddTotalSize int
  | Call_NewMultiUploader string MultiUploaderConfig
  | Call_SetInstanceState InstanceState
  | Call_Execute

text \<open>
  What the unit's collaborators answer during one run: the verbose flag, the configured
  rate limit, the size formatter and the block-size function (both declared outside the
  sources at hand), and the results of opening the file, of listing a directory, of
  hashing, of the rapid upload, and the callbacks of the transfer.
\<close>

record env =
  IsVerbose :: bool
  MaxUploadRate :: int
  ConvertFileSize :: "int \<Rightarrow> int \<Rightarrow> string"
  getBlockSize :: "int \<Rightarrow> int"
  OpenPath_result :: "go_error option"
  CacheFilesDirectoriesList :: "string \<Rightarrow> FileDirectory list option \<times> pcs_error option"
  Sum_result :: "go_error + byte list \<times> byte list"
  RapidUpload_result :: "pcs_error option"
  Execute_events :: "uploader_event list"

text \<open>
  The task unit.  \<open>UploadingDatabase\<close> is the store the unit points to, \<open>printer\<close>
  tells whether a printer was injected, and \<open>printed\<close> and \<open>calls\<close> collect what the
  unit printed and called.
\<close>

record UploadTaskUnit =
  LocalFileChecksum :: LocalFileMeta
  Step :: StepUpload
  SavePath :: string
  PrintFormat :: string
  UploadingDatabase :: UploadingDatabase
  Parallel :: int
  NoRapidUpload :: bool
  NoSplitFile :: bool
  Policy :: string
  printer :: bool
  panDir :: string
  panFile :: string
  state :: "InstanceState option"
  printed :: "out_line list"
  calls :: "ext_call list"


subsection \<open>Constants\<close>

text \<open>
  Modelled from the spec: \<^verbatim>\<open>baidupcs.MaxRapidUploadSize\<close> is declared outside the
  sources at hand; the spec and the message printed by \<^verbatim>\<open>prepareFile\<close> give the
  ceiling as 20 GiB.  \<open>MB\<close> is \<^verbatim>\<open>converter.MB\<close>.
\<close>

definition MaxRapidUploadSize :: int where
  "MaxRapidUploadSize = 20 * 1024 * 1024 * 1024"

definition MB :: int where
  "MB = 1024 * 1024"

definition StrUploadFailed :: string where
  "StrUploadFailed = [CHR 0xE4, CHR 0xB8, CHR 0x8A, CHR 0xE4, CHR 0xBC, CHR 0xA0, CHR 0xE6,
     CHR 0x96, CHR 0x87, CHR 0xE4, CHR 0xBB, CHR 0xB6, CHR 0xE5, CHR 0xA4, CHR 0xB1, CHR 0xE8,
     CHR 0xB4, CHR 0xA5]"

definition DefaultPrintFormat :: string where
  "DefaultPrintFormat = [CHR 0xE2, CHR 0x86, CHR 0x91] @ '' %s/%s %s/s in %s ............''"

definition msg_over_20GB :: string where
  "msg_over_20GB = [CHR 0xE6, CHR 0x96, CHR 0x87, CHR 0xE4, CHR 0xBB, CHR 0xB6, CHR 0xE8,
     CHR 0xB6, CHR 0x85, CHR 0xE8, CHR 0xBF, CHR 0x87] @ ''20GB, '' @ [CHR 0xE6, CHR 0x97,
     CHR 0xA0, CHR 0xE6, CHR 0xB3, CHR 0x95, CHR 0xE4, CHR 0xBD, CHR 0xBF, CHR 0xE7, CHR 0x94,
     CHR 0xA8, CHR 0xE7, CHR 0xA7, CHR 0x92, CHR 0xE4, CHR 0xBC, CHR 0xA0, CHR 0xE5, CHR 0x8A,
     CHR 0x9F, CHR 0xE8, CHR 0x83, CHR 0xBD] @ '', '' @ [CHR 0xE8, CHR 0xB7, CHR 0xB3,
     CHR 0xE8, CHR 0xBF, CHR 0x87, CHR 0xE7, CHR 0xA7, CHR 0x92, CHR 0xE4, CHR 0xBC,
     CHR 0xA0] @ ''...''"

definition msg_list_error :: string where
  "msg_list_error = [CHR 0xE8, CHR 0x8E, CHR 0xB7, CHR 0xE5, CHR 0x8F, CHR 0x96, CHR 0xE6,
     CHR 0x96, CHR 0x87, CHR 0xE4, CHR 0xBB, CHR 0xB6, CHR 0xE5, CHR 0x88, CHR 0x97, CHR 0xE8,
     CHR 0xA1, CHR 0xA8, CHR 0xE9, CHR 0x94, CHR 0x99, CHR 0xE8, CHR 0xAF, CHR 0xAF]"

definition msg_checking :: string where
  "msg_checking = [CHR 0xE6, CHR 0xA3, CHR 0x80, CHR 0xE6, CHR 0xB5, CHR 0x8B, CHR 0xE7,
     CHR 0xA7, CHR 0x92, CHR 0xE4, CHR 0xBC, CHR 0xA0, CHR 0xE4, CHR 0xB8, CHR 0xAD] @ '', '' @
     [CHR 0xE8, CHR 0xAF, CHR 0xB7, CHR 0xE7, CHR 0xA8, CHR 0x8D, CHR 0xE5, CHR 0x80,
     CHR 0x99] @ ''...''"

definition msg_sum_error :: string where
  "msg_sum_error = [CHR 0xE8, CHR 0xAE, CHR 0xA1, CHR 0xE7, CHR 0xAE, CHR 0x97, CHR 0xE6,
     CHR 0x96, CHR 0x87, CHR 0xE4, CHR 0xBB, CHR 0xB6, CHR 0xE7, CHR 0xA7, CHR 0x92, CHR 0xE4,
     CHR 0xBC, CHR 0xA0, CHR 0xE4, CHR 0xBF, CHR 0xA1, CHR 0xE6, CHR 0x81, CHR 0xAF, CHR 0xE9,
     CHR 0x94, CHR 0x99, CHR 0xE8, CHR 0xAF, CHR 0xAF]"

definition msg_exists :: string where
  "msg_exists = [CHR 0xE7, CHR 0x9B, CHR 0xAE, CHR 0xE6, CHR 0xA0, CHR 0x87, CHR 0xE6,
     CHR 0x96, CHR 0x87, CHR 0xE4, CHR 0xBB, CHR 0xB6] @ '', %s, '' @ [CHR 0xE5, CHR 0xB7,
     CHR 0xB2, CHR 0xE5, CHR 0xAD, CHR 0x98, CHR 0xE5, CHR 0x9C, CHR 0xA8] @ '', '' @
     [CHR 0xE8, CHR 0xB7, CHR 0xB3, CHR 0xE8, CHR 0xBF, CHR 0x87] @ ''...''"

definition msg_rapid_ok :: string where
  "msg_rapid_ok = [CHR 0xE7, CHR 0xA7, CHR 0x92, CHR 0xE4, CHR 0xBC, CHR 0xA0, CHR 0xE6,
     CHR 0x88, CHR 0x90, CHR 0xE5, CHR 0x8A, CHR 0x9F] @ '', '' @ [CHR 0xE4, CHR 0xBF,
     CHR 0x9D, CHR 0xE5, CHR 0xAD, CHR 0x98, CHR 0xE5, CHR 0x88, CHR 0xB0, CHR 0xE7, CHR 0xBD,
     CHR 0x91, CHR 0xE7, CHR 0x9B, CHR 0x98, CHR 0xE8, CHR 0xB7, CHR 0xAF, CHR 0xE5, CHR 0xBE,
     CHR 0x84] @ '': %s''"

definition msg_quota :: string where
  "msg_quota = [CHR 0xE7, CHR 0xA7, CHR 0x92, CHR 0xE4, CHR 0xBC, CHR 0xA0, CHR 0xE5, CHR 0xA4,
     CHR 0xB1, CHR 0xE8, CHR 0xB4, CHR 0xA5] @ '', '' @ [CHR 0xE8, CHR 0xB6, CHR 0x85,
     CHR 0xE5, CHR 0x87, CHR 0xBA, CHR 0xE9, CHR 0x85, CHR 0x8D, CHR 0xE9, CHR 0xA2,
     CHR 0x9D] @ '', '' @ [CHR 0xE7, CHR 0xBD, CHR 0x91, CHR 0xE7, CHR 0x9B, CHR 0x98,
     CHR 0xE5, CHR 0xAE, CHR 0xB9, CHR 0xE9, CHR 0x87, CHR 0x8F, CHR 0xE5, CHR 0xB7, CHR 0xB2,
     CHR 0xE6, CHR 0xBB, CHR 0xA1]"

definition msg_rapid_failed :: string where
  "msg_rapid_failed = [CHR 0xE7, CHR 0xA7, CHR 0x92, CHR 0xE4, CHR 0xBC, CHR 0xA0, CHR 0xE5,
     CHR 0xA4, CHR 0xB1, CHR 0xE8, CHR 0xB4, CHR 0xA5] @ '', '' @ [CHR 0xE5, CHR 0xBC,
     CHR 0x80, CHR 0xE5, CHR 0xA7, CHR 0x8B, CHR 0xE4, CHR 0xB8, CHR 0x8A, CHR 0xE4, CHR 0xBC,
     CHR 0xA0, CHR 0xE6, CHR 0x96, CHR 0x87, CHR 0xE4, CHR 0xBB, CHR 0xB6] @ ''...''"

definition msg_upload_ok :: string where
  "msg_upload_ok = [CHR 0xE4, CHR 0xB8, CHR 0x8A, CHR 0xE4, CHR 0xBC, CHR 0xA0, CHR 0xE6,
     CHR 0x96, CHR 0x87, CHR 0xE4, CHR 0xBB, CHR 0xB6, CHR 0xE6, CHR 0x88, CHR 0x90, CHR 0xE5,
     CHR 0x8A, CHR 0x9F] @ '', '' @ [CHR 0xE4, CHR 0xBF, CHR 0x9D, CHR 0xE5, CHR 0xAD,
     CHR 0x98, CHR 0xE5, CHR 0x88, CHR 0xB0, CHR 0xE7, CHR 0xBD, CHR 0x91, CHR 0xE7, CHR 0x9B,
     CHR 0x98, CHR 0xE8, CHR 0xB7, CHR 0xAF, CHR 0xE5, CHR 0xBE, CHR 0x84] @ '': %s''"

definition msg_upload_error :: string where
  "msg_upload_error = [CHR 0xE4, CHR 0xB8, CHR 0x8A, CHR 0xE4, CHR 0xBC, CHR 0xA0, CHR 0xE6,
     CHR 0x96, CHR 0x87, CHR 0xE4, CHR 0xBB, CHR 0xB6, CHR 0xE9, CHR 0x94, CHR 0x99, CHR 0xE8,
     CHR 0xAF, CHR 0xAF]"

definition msg_state_expired :: string where
  "msg_state_expired = [CHR 0xE4, CHR 0xB8, CHR 0x8A, CHR 0xE4, CHR 0xBC, CHR 0xA0, CHR 0xE7,
     CHR 0x8A, CHR 0xB6, CHR 0xE6, CHR 0x80, CHR 0x81, CHR 0xE8, CHR 0xBF, CHR 0x87, CHR 0xE6,
     CHR 0x9C, CHR 0x9F] @ '', '' @ [CHR 0xE9, CHR 0x87, CHR 0x8D, CHR 0xE6, CHR 0x96,
     CHR 0xB0, CHR 0xE4, CHR 0xB8, CHR 0x8A, CHR 0xE4, CHR 0xBC, CHR 0xA0]"

definition msg_prepare :: string where
  "msg_prepare = [CHR 0xE5, CHR 0x87, CHR 0x86, CHR 0xE5, CHR 0xA4, CHR 0x87, CHR 0xE4,
     CHR 0xB8, CHR 0x8A, CHR 0xE4, CHR 0xBC, CHR 0xA0] @ '': %s''"

definition msg_unreadable :: string where
  "msg_unreadable = [CHR 0xE6, CHR 0x96, CHR 0x87, CHR 0xE4, CHR 0xBB, CHR 0xB6, CHR 0xE4,
     CHR 0xB8, CHR 0x8D, CHR 0xE5, CHR 0x8F, CHR 0xAF, CHR 0xE8, CHR 0xAF, CHR 0xBB] @ '', '' @
     [CHR 0xE9, CHR 0x94, CHR 0x99, CHR 0xE8, CHR 0xAF, CHR 0xAF, CHR 0xE4, CHR 0xBF, CHR 0xA1,
     CHR 0xE6, CHR 0x81, CHR 0xAF] @ '': %s, '' @ [CHR 0xE8, CHR 0xB7, CHR 0xB3, CHR 0xE8,
     CHR 0xBF, CHR 0x87] @ ''...''"

definition too_large_413 :: string where
  "too_large_413 = ''413 Request Entity Too Large''"


subsection \<open>Operations\<close>

text \<open>
  \<^verbatim>\<open>Printf\<close>: to standard output when verbose or when no printer was injected,
  through the injected printer otherwise.
\<close>

definition Printf :: "env \<Rightarrow> UploadTaskUnit \<Rightarrow> string \<Rightarrow> fmt_arg list \<Rightarrow> UploadTaskUnit" where
  "Printf e u format a =
     (if IsVerbose e \<or> \<not> printer u
      then u\<lparr> printed := printed u @ [Stdout format a] \<rparr>
      else u\<lparr> printed := printed u @ [ToPrinter format a] \<rparr>)"

definition call :: "ext_call \<Rightarrow> UploadTaskUnit \<Rightarrow> UploadTaskUnit" where
  "call c u = u\<lparr> calls := calls u @ [c] \<rparr>"

text \<open>\<^verbatim>\<open>prepareFile\<close>.\<close>

definition prepareFile :: "env \<Rightarrow> UploadTaskUnit \<Rightarrow> UploadTaskUnit" where
  "prepareFile e u =
     (let u1 = u\<lparr> panDir := path_Clean (fst (path_Split (SavePath u))),
                  panFile := snd (path_Split (SavePath u)) \<rparr>;
          u2 = u1\<lparr> state := Search (UploadingDatabase u1) (LocalFileChecksum u1) \<rparr>
      in if state u2 \<noteq> None \<or> MD5 (LocalFileChecksum u2) \<noteq> None
         then u2\<lparr> Step := StepUploadUpload \<rparr>
         else if NoRapidUpload u2
         then u2\<lparr> Step := StepUploadUpload \<rparr>
         else if Length (LocalFileChecksum u2) > MaxRapidUploadSize
         then (Printf e u2 msg_over_20GB [])\<lparr> Step := StepUploadUpload \<rparr>
         else u2\<lparr> Step := StepUploadRapidUpload \<rparr>)"

text \<open>
  The loop of \<^verbatim>\<open>rapidUpload\<close> over the listing: is there an entry with the leaf
  name of the target whose MD5, decoded (a decoding error is ignored), equals the local
  MD5?
\<close>

fun same_file_listed :: "string \<Rightarrow> byte list \<Rightarrow> FileDirectory list \<Rightarrow> bool" where
  "same_file_listed name md5 [] = False"
| "same_file_listed name md5 (fd # fdl) =
     (if Filename fd = name \<and> fst (hex_DecodeString (fd_MD5 fd)) = md5 then True
      else same_file_listed name md5 fdl)"

text \<open>
  Modelled from the spec: \<^verbatim>\<open>LocalFileChecksum.Sum\<close> is declared outside the sources
  at hand.  It computes the full MD5 and the slice MD5 and keeps them in the file
  identity, or fails.
\<close>

definition Sum_md5 :: "env \<Rightarrow> UploadTaskUnit \<Rightarrow> go_error + UploadTaskUnit" where
  "Sum_md5 e u =
     (case Sum_result e of
        Inl err \<Rightarrow> Inl err
      | Inr (md5, smd5) \<Rightarrow>
          Inr (u\<lparr> LocalFileChecksum :=
                     (LocalFileChecksum u)\<lparr> MD5 := Some md5, SliceMD5 := Some smd5 \<rparr> \<rparr>))"

text \<open>
  \<^verbatim>\<open>rapidUpload\<close> in three parts, in the order of the source: the listing and its
  errors; the hashes and the check against the listing; the rapid upload and its
  errors.  The result is \<^verbatim>\<open>isContinue\<close>, the run result, and the unit.
\<close>

definition rapidUpload_call ::
  "env \<Rightarrow> UploadTaskUnit \<Rightarrow> bool \<times> TaskUnitRunResult \<times> UploadTaskUnit" where
  "rapidUpload_call e u =
     (let u1 = call (Call_RapidUpload (SavePath u)
                       (hex_EncodeToString (slice_bytes (MD5 (LocalFileChecksum u))))
                       (hex_EncodeToString (slice_bytes (SliceMD5 (LocalFileChecksum u))))
                       (string_of_nat (unat (CRC32 (LocalFileChecksum u))))
                       (Length (LocalFileChecksum u))) u
      in case RapidUpload_result e of
           None \<Rightarrow>
             (False, new_result\<lparr> Succeed := True \<rparr>,
              call (Call_AddTotalSize (Length (LocalFileChecksum u)))
                (Printf e u1 msg_rapid_ok [ArgString (SavePath u)]))
         | Some pcsError \<Rightarrow>
             if GetErrType pcsError = ErrTypeRemoteError \<and> GetRemoteErrCode pcsError = 31112
             then (False, new_result\<lparr> ResultMessage := msg_quota \<rparr>, u1)
             else (let u2 = Printf e u1 msg_rapid_failed [];
                       u3 = u2\<lparr> UploadingDatabase :=
                                   UpdateUploading (UploadingDatabase u2) (LocalFileChecksum u2) None \<rparr>;
                       u4 = u3\<lparr> UploadingDatabase := Save (UploadingDatabase u3) \<rparr>
                   in (True, new_result, u4)))"

definition rapidUpload_check ::
  "env \<Rightarrow> FileDirectory list option \<Rightarrow> UploadTaskUnit \<Rightarrow> bool \<times> TaskUnitRunResult \<times> UploadTaskUnit" where
  "rapidUpload_check e fdl u =
     (let u1 = (if Length (LocalFileChecksum u) \<ge> 128 * MB then Printf e u msg_checking [] else u);
          u2 = call Call_Sum u1
      in case Sum_md5 e u2 of
           Inl err \<Rightarrow> (False, new_result\<lparr> ResultMessage := msg_sum_error, Err := Some err \<rparr>, u2)
         | Inr u3 \<Rightarrow>
             if (case fdl of
                   None \<Rightarrow> False
                 | Some l \<Rightarrow> same_file_listed (panFile u3) (slice_bytes (MD5 (LocalFileChecksum u3))) l)
             then (False, new_result\<lparr> Succeed := True \<rparr>,
                   Printf e u3 msg_exists [ArgString (SavePath u3)])
             else rapidUpload_call e u3)"

definition rapidUpload ::
  "env \<Rightarrow> UploadTaskUnit \<Rightarrow> bool \<times> TaskUnitRunResult \<times> UploadTaskUnit" where
  "rapidUpload e u =
     (let u1 = call (Call_CacheFilesDirectoriesList (panDir u)) (u\<lparr> Step := StepUploadRapidUpload \<rparr>);
          fdl = fst (CacheFilesDirectoriesList e (panDir u))
      in case snd (CacheFilesDirectoriesList e (panDir u)) of
           None \<Rightarrow> rapidUpload_check e fdl u1
         | Some pcsError \<Rightarrow>
             if GetErrType pcsError = ErrTypeRemoteError
             then (if GetRemoteErrCode pcsError = 31066
                   then rapidUpload_check e fdl u1
                   else (False,
                         new_result\<lparr> ResultMessage := msg_list_error,
                                     Err := Some (PCSError pcsError) \<rparr>, u1))
             else (False,
                   new_result\<lparr> ResultMessage := msg_list_error, NeedRetry := True,
                               Err := Some (PCSError pcsError) \<rparr>, u1))"

text \<open>The three callbacks that \<^verbatim>\<open>upload\<close> registers with the transfer.\<close>

definition upload_OnUploadStatusEvent ::
  "env \<Rightarrow> Status \<Rightarrow> bool \<Rightarrow> InstanceState option \<Rightarrow> UploadTaskUnit \<Rightarrow> UploadTaskUnit" where
  "upload_OnUploadStatusEvent e status ready cur u =
     (let u1 = (if ready
                then u\<lparr> UploadingDatabase :=
                          Save (UpdateUploading (UploadingDatabase u) (LocalFileChecksum u) cur) \<rparr>
                else u)
      in Printf e u1 (PrintFormat u1)
           [ArgString (ConvertFileSize e (Uploaded status) 2),
            ArgString (ConvertFileSize e (TotalSize status) 2),
            ArgString (ConvertFileSize e (SpeedsPerSecond status) 2),
            ArgDuration (TimeElapsed status)])"

definition upload_OnSuccess ::
  "env \<Rightarrow> TaskUnitRunResult \<times> UploadTaskUnit \<Rightarrow> TaskUnitRunResult \<times> UploadTaskUnit" where
  "upload_OnSuccess e ru =
     (let u1 = Printf e (snd ru) msg_upload_ok [ArgString (SavePath (snd ru))];
          u2 = call (Call_AddTotalSize (Length (LocalFileChecksum u1))) u1;
          u3 = u2\<lparr> UploadingDatabase := Delete (UploadingDatabase u2) (LocalFileChecksum u2) \<rparr>;
          u4 = u3\<lparr> UploadingDatabase := Save (UploadingDatabase u3) \<rparr>
      in ((fst ru)\<lparr> Succeed := True \<rparr>, u4))"

definition upload_OnError ::
  "go_error \<Rightarrow> TaskUnitRunResult \<times> UploadTaskUnit \<Rightarrow> TaskUnitRunResult \<times> UploadTaskUnit" where
  "upload_OnError err ru =
     (case err of
        errors_New m \<Rightarrow> ((fst ru)\<lparr> ResultMessage := msg_upload_error, Err := Some err \<rparr>, snd ru)
      | PCSError pcsError \<Rightarrow>
          (let r = (fst ru)\<lparr> NeedRetry := True \<rparr>; u = snd ru
           in case GetErrType pcsError of
                ErrTypeRemoteError \<Rightarrow>
                  if GetRemoteErrCode pcsError = 31363
                  then (r\<lparr> ResultMessage := StrUploadFailed,
                            Err := Some (errors_New msg_state_expired) \<rparr>,
                        u\<lparr> UploadingDatabase :=
                             Save (Delete (UploadingDatabase u) (LocalFileChecksum u)) \<rparr>)
                  else if GetRemoteErrCode pcsError = 31061
                  then (r\<lparr> ResultMessage := StrUploadFailed, Err := Some (PCSError pcsError),
                            NeedRetry := False \<rparr>, u)
                  else (r\<lparr> ResultMessage := StrUploadFailed, Err := Some (PCSError pcsError) \<rparr>, u)
              | ErrTypeNetError \<Rightarrow>
                  if strings_Contains (GetError pcsError) too_large_413
                  then (r\<lparr> ResultMessage := StrUploadFailed, Err := Some (PCSError pcsError),
                            NeedRetry := False \<rparr>, u)
                  else (r\<lparr> ResultMessage := StrUploadFailed, Err := Some (PCSError pcsError) \<rparr>, u)
              | ErrTypeOther k \<Rightarrow>
                  (r\<lparr> ResultMessage := StrUploadFailed, NeedRetry := False,
                      Err := Some (PCSError pcsError) \<rparr>, u)))"

text \<open>\<^verbatim>\<open>muer.Execute()\<close>: the transfer runs and makes its callbacks one after another.\<close>

fun Execute ::
  "env \<Rightarrow> uploader_event list \<Rightarrow> TaskUnitRunResult \<times> UploadTaskUnit \<Rightarrow> TaskUnitRunResult \<times> UploadTaskUnit" where
  "Execute e [] ru = ru"
| "Execute e (UploadStatusEvent status ready cur # evs) ru =
     Execute e evs (fst ru, upload_OnUploadStatusEvent e status ready cur (snd ru))"
| "Execute e (UploadSuccess # evs) ru = Execute e evs (upload_OnSuccess e ru)"
| "Execute e (UploadError err # evs) ru = Execute e evs (upload_OnError err ru)"

text \<open>\<^verbatim>\<open>upload\<close>.\<close>

definition upload :: "env \<Rightarrow> UploadTaskUnit \<Rightarrow> TaskUnitRunResult \<times> UploadTaskUnit" where
  "upload e u =
     (let u1 = u\<lparr> Step := StepUploadUpload \<rparr>;
          blockSize = (if NoSplitFile u1 then Length (LocalFileChecksum u1)
                       else getBlockSize e (Length (LocalFileChecksum u1)));
          u2 = call (Call_NewMultiUploader (SavePath u1)
                       \<lparr> cfg_Parallel = Parallel u1, cfg_BlockSize = blockSize,
                         cfg_MaxRate = MaxUploadRate e, cfg_Policy = Policy u1 \<rparr>) u1;
          u3 = (case state u2 of None \<Rightarrow> u2 | Some st \<Rightarrow> call (Call_SetInstanceState st) u2)
      in Execute e (Execute_events e) (new_result, call Call_Execute u3))"

text \<open>
  The part of \<^verbatim>\<open>Run\<close> after \<^verbatim>\<open>prepareFile\<close>: the switch on the step, the
  rapid upload with its early return, and the upload.  A step that is neither of the two
  falls through to the rapid upload.
\<close>

definition Run_steps :: "env \<Rightarrow> UploadTaskUnit \<Rightarrow> TaskUnitRunResult \<times> UploadTaskUnit" where
  "Run_steps e u =
     (case Step u of
        StepUploadUpload \<Rightarrow> upload e u
      | _ \<Rightarrow>
          (case rapidUpload e u of
             (isContinue, rapidUploadResult, u3) \<Rightarrow>
               if \<not> isContinue then (rapidUploadResult, u3)
               else upload e u3))"

text \<open>
  \<^verbatim>\<open>Run\<close>.  The result is \<open>None\<close> where the source returns the \<^verbatim>\<open>nil\<close> result
  (the file cannot be opened).  The deferred \<^verbatim>\<open>Close\<close> runs on every return after
  the file was opened.
\<close>

definition Run :: "env \<Rightarrow> UploadTaskUnit \<Rightarrow> TaskUnitRunResult option \<times> UploadTaskUnit" where
  "Run e u =
     (let u1 = call Call_OpenPath (Printf e u msg_prepare [ArgString (Path (LocalFileChecksum u))])
      in case OpenPath_result e of
           Some err \<Rightarrow> (None, Printf e u1 msg_unreadable [ArgError err])
         | None \<Rightarrow>
             (let ru = Run_steps e (prepareFile e u1)
              in (Some (fst ru), call Call_Close (snd ru))))"


subsection \<open>Example runs\<close>

text \<open>
  A small file \<^verbatim>\<open>/home/u/a.bin\<close> to be saved as \<^verbatim>\<open>/apps/a.bin\<close>, with an empty
  store, and collaborators that answer as follows: the listing of \<^verbatim>\<open>/apps\<close> has an
  entry \<^verbatim>\<open>a.bin\<close> with the MD5 of the local file, hashing succeeds, the rapid upload
  succeeds, and the transfer makes one status callback with the update signal ready and
  then succeeds.  The variants change one answer each.
\<close>

definition ex_md5 :: "byte list" where
  "ex_md5 = [0xd4, 0x1d, 0x8c, 0xd9, 0x8f, 0x00, 0xb2, 0x04,
             0xe9, 0x80, 0x09, 0x98, 0xec, 0xf8, 0x42, 0x7e]"

definition ex_meta :: LocalFileMeta where
  "ex_meta = \<lparr> Path = ''/home/u/a.bin'', Length = 1024, SliceMD5 = None, MD5 = None, CRC32 = 0 \<rparr>"

definition ex_db :: UploadingDatabase where
  "ex_db = \<lparr> UploadingList = Map.empty, saved = Map.empty \<rparr>"

definition ex_utu :: UploadTaskUnit where
  "ex_utu = \<lparr> LocalFileChecksum = ex_meta, Step = StepUploadInit, SavePath = ''/apps/a.bin'',
     PrintFormat = DefaultPrintFormat, UploadingDatabase = ex_db, Parallel = 4,
     NoRapidUpload = False, NoSplitFile = False, Policy = ''fail'', printer = True,
     panDir = [], panFile = [], state = None, printed = [], calls = [] \<rparr>"

definition ex_utu_resume :: UploadTaskUnit where
  "ex_utu_resume =
     ex_utu\<lparr> UploadingDatabase := Save (UpdateUploading ex_db ex_meta (Some (InstanceState [0, 1]))),
              state := Some (InstanceState [0, 1]) \<rparr>"

definition ex_fd :: FileDirectory where
  "ex_fd = \<lparr> Filename = ''a.bin'', fd_MD5 = ''d41d8cd98f00b204e9800998ecf8427e'' \<rparr>"

definition ex_status :: Status where
  "ex_status = \<lparr> Uploaded = 512, TotalSize = 1024, SpeedsPerSecond = 256, TimeElapsed = 2000000000 \<rparr>"

definition ex_progress :: uploader_event where
  "ex_progress = UploadStatusEvent ex_status True (Some (InstanceState [0]))"

definition ex_env :: env where
  "ex_env = \<lparr> IsVerbose = False, MaxUploadRate = 0,
     ConvertFileSize = (\<lambda>size precision. fmt_d size @ ''B''),
     getBlockSize = (\<lambda>fileSize. 4194304),
     OpenPath_result = None,
     CacheFilesDirectoriesList = (\<lambda>dir. (Some [ex_fd], None)),
     Sum_result = Inr (ex_md5, ex_md5),
     RapidUpload_result = None,
     Execute_events = [ex_progress, UploadSuccess] \<rparr>"

definition ex_not_found :: pcs_error where
  "ex_not_found = \<lparr> GetErrType = ErrTypeRemoteError, GetRemoteErrCode = 31066,
     GetError = ''file does not exist'' \<rparr>"

definition ex_quota :: pcs_error where
  "ex_quota = \<lparr> GetErrType = ErrTypeRemoteError, GetRemoteErrCode = 31112,
     GetError = ''exceed quota'' \<rparr>"

definition ex_md5_unknown :: pcs_error where
  "ex_md5_unknown = \<lparr> GetErrType = ErrTypeRemoteError, GetRemoteErrCode = 31079,
     GetError = ''file md5 not found'' \<rparr>"

definition ex_stale :: pcs_error where
  "ex_stale = \<lparr> GetErrType = ErrTypeRemoteError, GetRemoteErrCode = 31363,
     GetError = ''block miss in superfile2'' \<rparr>"

definition ex_env_quota :: env where
  "ex_env_quota =
     ex_env\<lparr> CacheFilesDirectoriesList := (\<lambda>dir. (None, Some ex_not_found)),
              RapidUpload_result := Some ex_quota \<rparr>"

definition ex_env_rejected :: env where
  "ex_env_rejected = ex_env_quota\<lparr> RapidUpload_result := Some ex_md5_unknown \<rparr>"

definition ex_env_stale :: env where
  "ex_env_stale = ex_env\<lparr> Execute_events := [ex_progress, UploadError (PCSError ex_stale)] \<rparr>"

definition ex_env_verbose :: env where
  "ex_env_verbose = ex_env\<lparr> IsVerbose := True \<rparr>"

fun through_printer :: "out_line \<Rightarrow> bool" where
  "through_printer (ToPrinter f a) = True"
| "through_printer (Stdout f a) = False"


section \<open>Properties of the upload task unit\<close>

lemma Printf_fields [simp]:
  "LocalFileChecksum (Printf e u f a) = LocalFileChecksum u"
  "Step (Printf e u f a) = Step u"
  "SavePath (Printf e u f a) = SavePath u"
  "PrintFormat (Printf e u f a) = PrintFormat u"
  "UploadingDatabase (Printf e u f a) = UploadingDatabase u"
  "Parallel (Printf e u f a) = Parallel u"
  "NoRapidUpload (Printf e u f a) = NoRapidUpload u"
  "NoSplitFile (Printf e u f a) = NoSplitFile u"
  "Policy (Printf e u f a) = Policy u"
  "printer (Printf e u f a) = printer u"
  "panDir (Printf e u f a) = panDir u"
  "panFile (Printf e u f a) = panFile u"
  "state (Printf e u f a) = state u"
  "calls (Printf e u f a) = calls u"
  by (simp_all add: Printf_def)

lemma Printf_printed [simp]:
  "printed (Printf e u f a) =
     printed u @ [if IsVerbose e \<or> \<not> printer u then Stdout f a else ToPrinter f a]"
  by (simp add: Printf_def)

lemma call_fields [simp]:
  "LocalFileChecksum (call c u) = LocalFileChecksum u"
  "Step (call c u) = Step u"
  "SavePath (call c u) = SavePath u"
  "PrintFormat (call c u) = PrintFormat u"
  "UploadingDatabase (call c u) = UploadingDatabase u"
  "Parallel (call c u) = Parallel u"
  "NoRapidUpload (call c u) = NoRapidUpload u"
  "NoSplitFile (call c u) = NoSplitFile u"
  "Policy (call c u) = Policy u"
  "printer (call c u) = printer u"
  "panDir (call c u) = panDir u"
  "panFile (call c u) = panFile u"
  "state (call c u) = state u"
  "printed (call c u) = printed u"
  "calls (call c u) = calls u @ [c]"
  by (simp_all add: call_def)

lemma store_laws [simp]:
  "UploadingList (Delete ud m) m = None"
  "UploadingList (UpdateUploading ud m st) m = Some st"
  "UploadingList (Save ud) = UploadingList ud"
  "saved (Save ud) = UploadingList ud"
  by (simp_all add: Delete_def UpdateUploading_def Save_def)

text \<open>
  Claim C4.  After \<^verbatim>\<open>prepareFile\<close> the step is Upload if the store has a resume
  state for the file identity, or the MD5 is already there, or rapid upload is disabled,
  or the length exceeds \<open>MaxRapidUploadSize\<close> (20 GiB); otherwise it is Rapid-Upload.
\<close>

theorem prepareFile_Step:
  "Step (prepareFile e u) =
     (if Search (UploadingDatabase u) (LocalFileChecksum u) \<noteq> None
         \<or> MD5 (LocalFileChecksum u) \<noteq> None
         \<or> NoRapidUpload u
         \<or> Length (LocalFileChecksum u) > MaxRapidUploadSize
      then StepUploadUpload else StepUploadRapidUpload)
   \<and> MaxRapidUploadSize = 21474836480"
  by (simp add: prepareFile_def Let_def MaxRapidUploadSize_def)

subsection \<open>The callbacks of the transfer\<close>

fun is_status_event :: "uploader_event \<Rightarrow> bool" where
  "is_status_event (UploadStatusEvent s r c) = True"
| "is_status_event UploadSuccess = False"
| "is_status_event (UploadError err) = False"

lemma Execute_append: "Execute e (xs @ ys) ru = Execute e ys (Execute e xs ru)"
  by (induction e xs ru rule: Execute.induct) simp_all

lemma OnUploadStatusEvent_file [simp]:
  "LocalFileChecksum (upload_OnUploadStatusEvent e s r c u) = LocalFileChecksum u"
  by (simp add: upload_OnUploadStatusEvent_def Let_def)

lemma OnSuccess_file [simp]:
  "LocalFileChecksum (snd (upload_OnSuccess e ru)) = LocalFileChecksum (snd ru)"
  by (simp add: upload_OnSuccess_def Let_def)

lemma OnError_file [simp]:
  "LocalFileChecksum (snd (upload_OnError err ru)) = LocalFileChecksum (snd ru)"
  by (simp add: upload_OnError_def Let_def split: go_error.splits ErrType.splits)

lemma Execute_file [simp]:
  "LocalFileChecksum (snd (Execute e evs ru)) = LocalFileChecksum (snd ru)"
  by (induction e evs ru rule: Execute.induct) simp_all

lemma Execute_status_result:
  "list_all is_status_event evs \<Longrightarrow> fst (Execute e evs ru) = fst ru"
  by (induction e evs ru rule: Execute.induct) simp_all

lemma upload_unfold:
  "Execute_events e = pre @ [ev] \<Longrightarrow>
   upload e u =
     Execute e [ev]
       (Execute e pre
          (new_result,
           call Call_Execute
             (case state u of
                None \<Rightarrow>
                  call (Call_NewMultiUploader (SavePath u)
                          \<lparr> cfg_Parallel = Parallel u,
                            cfg_BlockSize = (if NoSplitFile u then Length (LocalFileChecksum u)
                                             else getBlockSize e (Length (LocalFileChecksum u))),
                            cfg_MaxRate = MaxUploadRate e, cfg_Policy = Policy u \<rparr>)
                    (u\<lparr> Step := StepUploadUpload \<rparr>)
              | Some st \<Rightarrow>
                  call (Call_SetInstanceState st)
                    (call (Call_NewMultiUploader (SavePath u)
                             \<lparr> cfg_Parallel = Parallel u,
                               cfg_BlockSize = (if NoSplitFile u then Length (LocalFileChecksum u)
                                                else getBlockSize e (Length (LocalFileChecksum u))),
                               cfg_MaxRate = MaxUploadRate e, cfg_Policy = Policy u \<rparr>)
                       (u\<lparr> Step := StepUploadUpload \<rparr>)))))"
  by (simp add: upload_def Let_def Execute_append split: option.splits)

lemma upload_file [simp]:
  "LocalFileChecksum (snd (upload e u)) = LocalFileChecksum u"
  by (simp add: upload_def Let_def split: option.splits)

lemma upload_last_event:
  assumes "Execute_events e = pre @ [ev]"
  shows "\<exists>ru. upload e u = Execute e [ev] ru \<and> LocalFileChecksum (snd ru) = LocalFileChecksum u \<and>
           (list_all is_status_event pre \<longrightarrow> fst ru = new_result)"
  unfolding upload_unfold [OF assms]
  by (intro exI conjI impI, rule refl) (simp_all add: Execute_status_result split: option.splits)


text \<open>
  Claim C1.  When the transfer ends with the error callback (after status callbacks
  only), the run result is a failure whose retry flag follows the class of the error: an
  error that is no \<^verbatim>\<open>pcserror.Error\<close> is not retried; a remote error is retried
  unless its code is 31061 (duplicate name); a network error is retried unless its
  message contains \<^verbatim>\<open>413 Request Entity Too Large\<close>; an error of another type is not
  retried.  For the remote code 31363 (stale session) the unit calls \<^verbatim>\<open>Delete\<close> for
  the file identity and then \<^verbatim>\<open>Save\<close>, so that the store holds no checkpoint for it.
\<close>

theorem upload_error_classified:
  assumes "Execute_events e = pre @ [UploadError err]"
    and "list_all is_status_event pre"
    and "upload e u = (r, u')"
  shows "\<not> Succeed r \<and>
         NeedRetry r =
           (case err of
              errors_New m \<Rightarrow> False
            | PCSError pe \<Rightarrow>
                (case GetErrType pe of
                   ErrTypeRemoteError \<Rightarrow> GetRemoteErrCode pe \<noteq> 31061
                 | ErrTypeNetError \<Rightarrow> \<not> strings_Contains (GetError pe) too_large_413
                 | ErrTypeOther k \<Rightarrow> False)) \<and>
         ((\<exists>pe. err = PCSError pe \<and> GetErrType pe = ErrTypeRemoteError
                \<and> GetRemoteErrCode pe = 31363) \<longrightarrow>
            NeedRetry r \<and>
            (\<exists>ud. UploadingDatabase u' = Save (Delete ud (LocalFileChecksum u))) \<and>
            UploadingList (UploadingDatabase u') (LocalFileChecksum u) = None \<and>
            saved (UploadingDatabase u') (LocalFileChecksum u) = None \<and>
            Search (UploadingDatabase u') (LocalFileChecksum u) = None)"
proof -
  from upload_last_event [OF assms(1), of u] assms(2)
  obtain ru where ru: "upload e u = Execute e [UploadError err] ru"
    and lfc: "LocalFileChecksum (snd ru) = LocalFileChecksum u"
    and fresh: "fst ru = new_result"
    by blast
  from ru assms(3) have "upload_OnError err ru = (r, u')"
    by simp
  then have r: "r = fst (upload_OnError err ru)"
    and u': "u' = snd (upload_OnError err ru)"
    by simp_all
  show ?thesis
  proof (cases err)
    case (errors_New m)
    then show ?thesis
      by (simp add: r upload_OnError_def fresh new_result_def)
  next
    case (PCSError pe)
    then show ?thesis
      by (cases "GetErrType pe")
        (auto simp: r u' upload_OnError_def Let_def fresh new_result_def lfc Search_def)
  qed
qed

text \<open>
  Claim C5.  When the transfer ends with the success callback, the unit has called
  \<^verbatim>\<open>Delete\<close> for the file identity and then \<^verbatim>\<open>Save\<close> before it sets the run
  result to success, so that the store, in memory and as saved, holds no checkpoint for
  the file identity.
\<close>

theorem upload_success_deletes_checkpoint:
  assumes "Execute_events e = pre @ [UploadSuccess]"
    and "upload e u = (r, u')"
  shows "Succeed r \<and>
         (\<exists>ud. UploadingDatabase u' = Save (Delete ud (LocalFileChecksum u))) \<and>
         UploadingList (UploadingDatabase u') (LocalFileChecksum u) = None \<and>
         saved (UploadingDatabase u') (LocalFileChecksum u) = None \<and>
         Search (UploadingDatabase u') (LocalFileChecksum u) = None \<and>
         LocalFileChecksum u' = LocalFileChecksum u"
proof -
  from upload_last_event [OF assms(1), of u]
  obtain ru where ru: "upload e u = Execute e [UploadSuccess] ru"
    and lfc: "LocalFileChecksum (snd ru) = LocalFileChecksum u"
    by blast
  from ru assms(2) have "upload_OnSuccess e ru = (r, u')"
    by simp
  then have r: "r = fst (upload_OnSuccess e ru)"
    and u': "u' = snd (upload_OnSuccess e ru)"
    by simp_all
  show ?thesis
    by (auto simp: r u' upload_OnSuccess_def Let_def lfc Search_def)
qed

text \<open>
  Claim C6, as the code has it.  The status callback saves the checkpoint (the state the
  transfer reports, under the file identity) exactly when the update signal is ready,
  and leaves the store alone otherwise; and it prints exactly one line, the format
  \<^verbatim>\<open>PrintFormat\<close> with the uploaded size, the total size, the speed and the elapsed
  time.  The line goes through the injected printer when the verbose flag is off and a
  printer was injected, and to standard output otherwise.
\<close>

theorem status_callback_persists_when_ready_and_prints:
  "UploadingDatabase (upload_OnUploadStatusEvent e status ready cur u) =
     (if ready
      then Save (UpdateUploading (UploadingDatabase u) (LocalFileChecksum u) cur)
      else UploadingDatabase u) \<and>
   printed (upload_OnUploadStatusEvent e status ready cur u) =
     printed u @
       [(if IsVerbose e \<or> \<not> printer u then Stdout else ToPrinter) (PrintFormat u)
          [ArgString (ConvertFileSize e (Uploaded status) 2),
           ArgString (ConvertFileSize e (TotalSize status) 2),
           ArgString (ConvertFileSize e (SpeedsPerSecond status) 2),
           ArgDuration (TimeElapsed status)]]"
  by (simp add: upload_OnUploadStatusEvent_def Let_def)


subsection \<open>The rapid upload\<close>

text \<open>
  The listing is usable when the call returned no error, or the remote code 31066 (the
  directory does not exist).
\<close>

definition listing_usable :: "pcs_error option \<Rightarrow> bool" where
  "listing_usable perr =
     (case perr of
        None \<Rightarrow> True
      | Some pe \<Rightarrow> GetErrType pe = ErrTypeRemoteError \<and> GetRemoteErrCode pe = 31066)"

lemma same_file_listed_iff:
  "same_file_listed name md5 fdl =
     (\<exists>fd \<in> set fdl. Filename fd = name \<and> fst (hex_DecodeString (fd_MD5 fd)) = md5)"
  by (induction fdl) auto

lemma rapidUpload_usable:
  assumes "CacheFilesDirectoriesList e (panDir u) = (fdl, perr)" and "listing_usable perr"
  shows "rapidUpload e u =
           rapidUpload_check e fdl
             (call (Call_CacheFilesDirectoriesList (panDir u)) (u\<lparr> Step := StepUploadRapidUpload \<rparr>))"
  using assms by (cases perr) (auto simp: rapidUpload_def Let_def listing_usable_def)

lemma Run_steps_rapid:
  "Step u \<noteq> StepUploadUpload \<Longrightarrow>
   Run_steps e u =
     (if \<not> fst (rapidUpload e u) then snd (rapidUpload e u)
      else upload e (snd (snd (rapidUpload e u))))"
  by (cases "Step u") (simp_all add: Run_steps_def split: prod.splits)

text \<open>
  Claim C2.  In a run that is at the Rapid-Upload stage, if the listing is usable and has
  an entry with the leaf name of the target whose MD5 decodes to the MD5 computed for the
  local file, the run result is a success, and the only calls made are the listing and
  the hashing: no rapid upload, no transfer.
\<close>

theorem rapid_upload_same_file_listed_succeeds:
  assumes "Step u \<noteq> StepUploadUpload"
    and "CacheFilesDirectoriesList e (panDir u) = (Some fdl, perr)"
    and "listing_usable perr"
    and "Sum_result e = Inr (md5, smd5)"
    and "fd \<in> set fdl"
    and "Filename fd = panFile u"
    and "fst (hex_DecodeString (fd_MD5 fd)) = md5"
  shows "Succeed (fst (Run_steps e u)) \<and>
         \<not> NeedRetry (fst (Run_steps e u)) \<and>
         calls (snd (Run_steps e u)) =
           calls u @ [Call_CacheFilesDirectoriesList (panDir u), Call_Sum] \<and>
         Step (snd (Run_steps e u)) = StepUploadRapidUpload"
proof -
  have listed: "same_file_listed (panFile u) md5 fdl"
    using assms(5,6,7) by (auto simp: same_file_listed_iff)
  have "rapidUpload e u =
      (False, new_result\<lparr> Succeed := True \<rparr>,
       Printf e
         ((call Call_Sum
            (if Length (LocalFileChecksum u) \<ge> 128 * MB
             then Printf e (call (Call_CacheFilesDirectoriesList (panDir u))
                              (u\<lparr> Step := StepUploadRapidUpload \<rparr>)) msg_checking []
             else call (Call_CacheFilesDirectoriesList (panDir u))
                    (u\<lparr> Step := StepUploadRapidUpload \<rparr>)))
            \<lparr> LocalFileChecksum :=
                 (LocalFileChecksum u)\<lparr> MD5 := Some md5, SliceMD5 := Some smd5 \<rparr> \<rparr>)
         msg_exists [ArgString (SavePath u)])"
    unfolding rapidUpload_usable [OF assms(2,3)]
    using assms(4) listed
    by (simp add: rapidUpload_check_def Sum_md5_def Let_def slice_bytes_def)
  then show ?thesis
    by (simp add: Run_steps_rapid [OF assms(1)] new_result_def)
qed

text \<open>
  Claim C3.  In a run that is at the Rapid-Upload stage and gets as far as the rapid
  upload (usable listing, hashes computed, no listed entry that matches), if the rapid
  upload fails with the remote code 31112, the run result is a failure that is not
  retried, and the calls made end with the rapid upload: the transfer is not started.
\<close>

theorem rapid_upload_quota_is_terminal:
  assumes "Step u \<noteq> StepUploadUpload"
    and "CacheFilesDirectoriesList e (panDir u) = (fdl, perr)"
    and "listing_usable perr"
    and "Sum_result e = Inr (md5, smd5)"
    and "\<forall>l. fdl = Some l \<longrightarrow> \<not> same_file_listed (panFile u) md5 l"
    and "RapidUpload_result e = Some pe"
    and "GetErrType pe = ErrTypeRemoteError"
    and "GetRemoteErrCode pe = 31112"
  shows "\<not> Succeed (fst (Run_steps e u)) \<and>
         \<not> NeedRetry (fst (Run_steps e u)) \<and>
         ResultMessage (fst (Run_steps e u)) = msg_quota \<and>
         calls (snd (Run_steps e u)) =
           calls u @ [Call_CacheFilesDirectoriesList (panDir u), Call_Sum,
                      Call_RapidUpload (SavePath u) (hex_EncodeToString md5)
                        (hex_EncodeToString smd5)
                        (string_of_nat (unat (CRC32 (LocalFileChecksum u))))
                        (Length (LocalFileChecksum u))] \<and>
         Step (snd (Run_steps e u)) = StepUploadRapidUpload"
proof -
  have "fst (rapidUpload e u) = False \<and>
        fst (snd (rapidUpload e u)) = new_result\<lparr> ResultMessage := msg_quota \<rparr> \<and>
        calls (snd (snd (rapidUpload e u))) =
           calls u @ [Call_CacheFilesDirectoriesList (panDir u), Call_Sum,
                      Call_RapidUpload (SavePath u) (hex_EncodeToString md5)
                        (hex_EncodeToString smd5)
                        (string_of_nat (unat (CRC32 (LocalFileChecksum u))))
                        (Length (LocalFileChecksum u))] \<and>
        Step (snd (snd (rapidUpload e u))) = StepUploadRapidUpload"
    unfolding rapidUpload_usable [OF assms(2,3)]
    using assms(4,5,6,7,8)
    by (cases fdl)
      (simp_all add: rapidUpload_check_def rapidUpload_call_def Sum_md5_def Let_def slice_bytes_def)
  then show ?thesis
    by (simp add: Run_steps_rapid [OF assms(1)] new_result_def)
qed

text \<open>
  Claim C7.  In a run that is at the Rapid-Upload stage and gets as far as the rapid
  upload, if the rapid upload fails with an error other than the remote code 31112, the
  unit prints the message that the rapid upload failed, stores for the file identity an
  entry with no resume state, saves the store, and the run goes on with the upload.
\<close>

theorem rapid_upload_rejected_falls_through:
  assumes "Step u \<noteq> StepUploadUpload"
    and "CacheFilesDirectoriesList e (panDir u) = (fdl, perr)"
    and "listing_usable perr"
    and "Sum_result e = Inr (md5, smd5)"
    and "\<forall>l. fdl = Some l \<longrightarrow> \<not> same_file_listed (panFile u) md5 l"
    and "RapidUpload_result e = Some pe"
    and "\<not> (GetErrType pe = ErrTypeRemoteError \<and> GetRemoteErrCode pe = 31112)"
    and "rapidUpload e u = (isContinue, r, u3)"
  shows "isContinue \<and>
         Run_steps e u = upload e u3 \<and>
         last (printed u3) =
           (if IsVerbose e \<or> \<not> printer u then Stdout else ToPrinter) msg_rapid_failed [] \<and>
         LocalFileChecksum u3 = (LocalFileChecksum u)\<lparr> MD5 := Some md5, SliceMD5 := Some smd5 \<rparr> \<and>
         UploadingDatabase u3 =
           Save (UpdateUploading (UploadingDatabase u) (LocalFileChecksum u3) None) \<and>
         UploadingList (UploadingDatabase u3) (LocalFileChecksum u3) = Some None \<and>
         saved (UploadingDatabase u3) (LocalFileChecksum u3) = Some None"
proof -
  have "fst (rapidUpload e u) = True \<and>
        last (printed (snd (snd (rapidUpload e u)))) =
           (if IsVerbose e \<or> \<not> printer u then Stdout else ToPrinter) msg_rapid_failed [] \<and>
        LocalFileChecksum (snd (snd (rapidUpload e u))) =
           (LocalFileChecksum u)\<lparr> MD5 := Some md5, SliceMD5 := Some smd5 \<rparr> \<and>
        UploadingDatabase (snd (snd (rapidUpload e u))) =
           Save (UpdateUploading (UploadingDatabase u)
                   ((LocalFileChecksum u)\<lparr> MD5 := Some md5, SliceMD5 := Some smd5 \<rparr>) None)"
    unfolding rapidUpload_usable [OF assms(2,3)]
    using assms(4,5,6,7)
    by (cases fdl)
      (auto simp: rapidUpload_check_def rapidUpload_call_def Sum_md5_def Let_def slice_bytes_def)
  then show ?thesis
    using assms(8) by (simp add: Run_steps_rapid [OF assms(1)])
qed


subsection \<open>The claims on the example runs\<close>

lemmas ex_upload_defs = ex_md5_def ex_meta_def ex_db_def ex_utu_def ex_utu_resume_def ex_fd_def
  ex_status_def ex_progress_def ex_env_def ex_not_found_def ex_quota_def ex_md5_unknown_def
  ex_stale_def ex_env_quota_def ex_env_rejected_def ex_env_stale_def ex_env_verbose_def

lemma ex_prepared:
  "Step (prepareFile e ex_utu) = StepUploadRapidUpload"
  "panDir (prepareFile e ex_utu) = ''/apps''"
  "panFile (prepareFile e ex_utu) = ''a.bin''"
  "LocalFileChecksum (prepareFile e ex_utu) = ex_meta"
  "UploadingDatabase (prepareFile e ex_utu) = ex_db"
  "SavePath (prepareFile e ex_utu) = ''/apps/a.bin''"
  "calls (prepareFile e ex_utu) = []"
  "printed (prepareFile e ex_utu) = []"
  "printer (prepareFile e ex_utu)"
  by (simp_all add: prepareFile_def Let_def ex_utu_def ex_meta_def ex_db_def Search_def
      MaxRapidUploadSize_def path_Split_def path_Clean_def clean_step_def)

theorem prepareFile_Step_witness:
  "Search (UploadingDatabase ex_utu) (LocalFileChecksum ex_utu) = None \<and>
   MD5 (LocalFileChecksum ex_utu) = None \<and>
   NoRapidUpload ex_utu = False \<and>
   Length (LocalFileChecksum ex_utu) = 1024 \<and>
   Step (prepareFile ex_env ex_utu) = StepUploadRapidUpload \<and>
   Step (prepareFile ex_env (ex_utu\<lparr> NoRapidUpload := True \<rparr>)) = StepUploadUpload \<and>
   Search (UploadingDatabase ex_utu_resume) (LocalFileChecksum ex_utu_resume)
     = Some (InstanceState [0, 1]) \<and>
   Step (prepareFile ex_env ex_utu_resume) = StepUploadUpload"
  using prepareFile_Step [of ex_env ex_utu]
    prepareFile_Step [of ex_env "ex_utu\<lparr> NoRapidUpload := True \<rparr>"]
    prepareFile_Step [of ex_env ex_utu_resume]
  by (simp add: ex_utu_def ex_utu_resume_def ex_meta_def ex_db_def Search_def)


theorem upload_error_classified_witness:
  "Execute_events ex_env_stale = [ex_progress] @ [UploadError (PCSError ex_stale)] \<and>
   list_all is_status_event [ex_progress] \<and>
   Search (UploadingDatabase ex_utu_resume) ex_meta = Some (InstanceState [0, 1]) \<and>
   \<not> Succeed (fst (upload ex_env_stale ex_utu_resume)) \<and>
   NeedRetry (fst (upload ex_env_stale ex_utu_resume)) \<and>
   UploadingList (UploadingDatabase (snd (upload ex_env_stale ex_utu_resume))) ex_meta = None \<and>
   saved (UploadingDatabase (snd (upload ex_env_stale ex_utu_resume))) ex_meta = None"
proof -
  have ev: "Execute_events ex_env_stale = [ex_progress] @ [UploadError (PCSError ex_stale)]"
    by (simp add: ex_env_stale_def ex_env_def)
  have st: "list_all is_status_event [ex_progress]"
    by (simp add: ex_progress_def)
  have up: "upload ex_env_stale ex_utu_resume =
      (fst (upload ex_env_stale ex_utu_resume), snd (upload ex_env_stale ex_utu_resume))"
    by simp
  have before: "Search (UploadingDatabase ex_utu_resume) ex_meta = Some (InstanceState [0, 1])"
    by (simp add: ex_utu_resume_def ex_utu_def Search_def)
  have lfc: "LocalFileChecksum ex_utu_resume = ex_meta"
    by (simp add: ex_utu_resume_def ex_utu_def)
  show ?thesis
    using ev st before upload_error_classified [OF ev st up]
    by (simp add: lfc ex_stale_def)
qed

theorem upload_success_deletes_checkpoint_witness:
  "Execute_events ex_env = [ex_progress] @ [UploadSuccess] \<and>
   Search (UploadingDatabase ex_utu_resume) ex_meta = Some (InstanceState [0, 1]) \<and>
   Succeed (fst (upload ex_env ex_utu_resume)) \<and>
   UploadingList (UploadingDatabase (snd (upload ex_env ex_utu_resume))) ex_meta = None \<and>
   saved (UploadingDatabase (snd (upload ex_env ex_utu_resume))) ex_meta = None \<and>
   Search (UploadingDatabase (snd (upload ex_env ex_utu_resume))) ex_meta = None"
proof -
  have ev: "Execute_events ex_env = [ex_progress] @ [UploadSuccess]"
    by (simp add: ex_env_def)
  have up: "upload ex_env ex_utu_resume =
      (fst (upload ex_env ex_utu_resume), snd (upload ex_env ex_utu_resume))"
    by simp
  have before: "Search (UploadingDatabase ex_utu_resume) ex_meta = Some (InstanceState [0, 1])"
    by (simp add: ex_utu_resume_def ex_utu_def Search_def)
  have lfc: "LocalFileChecksum ex_utu_resume = ex_meta"
    by (simp add: ex_utu_resume_def ex_utu_def)
  show ?thesis
    using ev before upload_success_deletes_checkpoint [OF ev up]
    by (simp add: lfc)
qed

theorem status_callback_persists_when_ready_and_prints_witness:
  "saved (UploadingDatabase
            (upload_OnUploadStatusEvent ex_env ex_status True (Some (InstanceState [0])) ex_utu))
     ex_meta = Some (Some (InstanceState [0])) \<and>
   UploadingDatabase
     (upload_OnUploadStatusEvent ex_env ex_status False (Some (InstanceState [0])) ex_utu) = ex_db \<and>
   printed (upload_OnUploadStatusEvent ex_env ex_status True (Some (InstanceState [0])) ex_utu) =
     [ToPrinter DefaultPrintFormat
        [ArgString ''512B'', ArgString ''1024B'', ArgString ''256B'', ArgDuration 2000000000]] \<and>
   printed (upload_OnUploadStatusEvent ex_env ex_status False (Some (InstanceState [0])) ex_utu) =
     [ToPrinter DefaultPrintFormat
        [ArgString ''512B'', ArgString ''1024B'', ArgString ''256B'', ArgDuration 2000000000]]"
  using status_callback_persists_when_ready_and_prints
          [of ex_env ex_status True "Some (InstanceState [0])" ex_utu]
        status_callback_persists_when_ready_and_prints
          [of ex_env ex_status False "Some (InstanceState [0])" ex_utu]
  by (simp add: ex_env_def ex_utu_def ex_status_def fmt_d_def string_of_nat.simps digit_char_def)

text \<open>
  Claim C6 as stated fails.  With the verbose flag on and a printer injected, the status
  callback prints its line to standard output, and nothing goes through the printer.
\<close>

theorem status_callback_printer_counterexample:
  "printer ex_utu \<and> IsVerbose ex_env_verbose \<and>
   printed (upload_OnUploadStatusEvent ex_env_verbose ex_status True None ex_utu) =
     [Stdout DefaultPrintFormat
        [ArgString ''512B'', ArgString ''1024B'', ArgString ''256B'', ArgDuration 2000000000]] \<and>
   filter through_printer
     (printed (upload_OnUploadStatusEvent ex_env_verbose ex_status True None ex_utu)) = []"
  by (simp add: upload_OnUploadStatusEvent_def Let_def ex_env_verbose_def ex_env_def ex_utu_def
      ex_status_def fmt_d_def string_of_nat.simps digit_char_def)

lemma ex_decoded: "fst (hex_DecodeString (fd_MD5 ex_fd)) = ex_md5"
  by (simp add: ex_fd_def ex_md5_def fromHexChar_def)

theorem rapid_upload_same_file_listed_succeeds_witness:
  "Step (prepareFile ex_env ex_utu) = StepUploadRapidUpload \<and>
   CacheFilesDirectoriesList ex_env ''/apps'' = (Some [ex_fd], None) \<and>
   Sum_result ex_env = Inr (ex_md5, ex_md5) \<and>
   Filename ex_fd = ''a.bin'' \<and>
   fst (hex_DecodeString (fd_MD5 ex_fd)) = ex_md5 \<and>
   Succeed (fst (Run_steps ex_env (prepareFile ex_env ex_utu))) \<and>
   \<not> NeedRetry (fst (Run_steps ex_env (prepareFile ex_env ex_utu))) \<and>
   calls (snd (Run_steps ex_env (prepareFile ex_env ex_utu))) =
     [Call_CacheFilesDirectoriesList ''/apps'', Call_Sum]"
proof -
  have step: "Step (prepareFile ex_env ex_utu) \<noteq> StepUploadUpload"
    by (simp add: ex_prepared)
  have list: "CacheFilesDirectoriesList ex_env (panDir (prepareFile ex_env ex_utu)) =
      (Some [ex_fd], None)"
    by (simp add: ex_env_def)
  have usable: "listing_usable None"
    by (simp add: listing_usable_def)
  have sum: "Sum_result ex_env = Inr (ex_md5, ex_md5)"
    by (simp add: ex_env_def)
  have mem: "ex_fd \<in> set [ex_fd]"
    by simp
  have name: "Filename ex_fd = panFile (prepareFile ex_env ex_utu)"
    by (simp add: ex_prepared ex_fd_def)
  show ?thesis
    using rapid_upload_same_file_listed_succeeds [OF step list usable sum mem name ex_decoded]
      ex_decoded sum
    by (simp add: ex_prepared) (simp add: ex_env_def ex_fd_def)
qed

lemma ex_quota_reach:
  "CacheFilesDirectoriesList ex_env_quota (panDir (prepareFile e ex_utu)) = (None, Some ex_not_found)"
  "CacheFilesDirectoriesList ex_env_rejected (panDir (prepareFile e ex_utu)) = (None, Some ex_not_found)"
  "listing_usable (Some ex_not_found)"
  "Sum_result ex_env_quota = Inr (ex_md5, ex_md5)"
  "Sum_result ex_env_rejected = Inr (ex_md5, ex_md5)"
  "\<forall>l. (None :: FileDirectory list option) = Some l \<longrightarrow> \<not> same_file_listed (panFile (prepareFile e ex_utu)) ex_md5 l"
  "RapidUpload_result ex_env_quota = Some ex_quota"
  "RapidUpload_result ex_env_rejected = Some ex_md5_unknown"
  by (simp_all add: ex_env_quota_def ex_env_rejected_def ex_env_def listing_usable_def ex_not_found_def)

theorem rapid_upload_quota_is_terminal_witness:
  "Step (prepareFile ex_env_quota ex_utu) = StepUploadRapidUpload \<and>
   RapidUpload_result ex_env_quota = Some ex_quota \<and>
   GetErrType ex_quota = ErrTypeRemoteError \<and> GetRemoteErrCode ex_quota = 31112 \<and>
   \<not> Succeed (fst (Run_steps ex_env_quota (prepareFile ex_env_quota ex_utu))) \<and>
   \<not> NeedRetry (fst (Run_steps ex_env_quota (prepareFile ex_env_quota ex_utu))) \<and>
   calls (snd (Run_steps ex_env_quota (prepareFile ex_env_quota ex_utu))) =
     [Call_CacheFilesDirectoriesList ''/apps'', Call_Sum,
      Call_RapidUpload ''/apps/a.bin'' (hex_EncodeToString ex_md5) (hex_EncodeToString ex_md5)
        (string_of_nat 0) 1024]"
proof -
  have step: "Step (prepareFile ex_env_quota ex_utu) \<noteq> StepUploadUpload"
    by (simp add: ex_prepared)
  have ty: "GetErrType ex_quota = ErrTypeRemoteError"
    and code: "GetRemoteErrCode ex_quota = 31112"
    by (simp_all add: ex_quota_def)
  show ?thesis
    using rapid_upload_quota_is_terminal
            [OF step ex_quota_reach(1) ex_quota_reach(3) ex_quota_reach(4) ex_quota_reach(6)
                ex_quota_reach(7) ty code]
      ty code ex_quota_reach(7)
    by (simp add: ex_prepared ex_meta_def)
qed

theorem rapid_upload_rejected_falls_through_witness:
  "Step (prepareFile ex_env_rejected ex_utu) = StepUploadRapidUpload \<and>
   RapidUpload_result ex_env_rejected = Some ex_md5_unknown \<and>
   GetRemoteErrCode ex_md5_unknown = 31079 \<and>
   fst (rapidUpload ex_env_rejected (prepareFile ex_env_rejected ex_utu)) \<and>
   Run_steps ex_env_rejected (prepareFile ex_env_rejected ex_utu) =
     upload ex_env_rejected (snd (snd (rapidUpload ex_env_rejected (prepareFile ex_env_rejected ex_utu)))) \<and>
   last (printed (snd (snd (rapidUpload ex_env_rejected (prepareFile ex_env_rejected ex_utu))))) =
     ToPrinter msg_rapid_failed [] \<and>
   saved (UploadingDatabase (snd (snd (rapidUpload ex_env_rejected (prepareFile ex_env_rejected ex_utu)))))
     (ex_meta\<lparr> MD5 := Some ex_md5, SliceMD5 := Some ex_md5 \<rparr>) = Some None"
proof -
  have step: "Step (prepareFile ex_env_rejected ex_utu) \<noteq> StepUploadUpload"
    by (simp add: ex_prepared)
  have code: "GetRemoteErrCode ex_md5_unknown = 31079"
    by (simp add: ex_md5_unknown_def)
  then have other: "\<not> (GetErrType ex_md5_unknown = ErrTypeRemoteError \<and> GetRemoteErrCode ex_md5_unknown = 31112)"
    by simp
  have ru: "rapidUpload ex_env_rejected (prepareFile ex_env_rejected ex_utu) =
      (fst (rapidUpload ex_env_rejected (prepareFile ex_env_rejected ex_utu)),
       fst (snd (rapidUpload ex_env_rejected (prepareFile ex_env_rejected ex_utu))),
       snd (snd (rapidUpload ex_env_rejected (prepareFile ex_env_rejected ex_utu))))"
    by simp
  have quiet: "IsVerbose ex_env_rejected = False"
    by (simp add: ex_env_rejected_def ex_env_quota_def ex_env_def)
  show ?thesis
    using rapid_upload_rejected_falls_through
            [OF step ex_quota_reach(2) ex_quota_reach(3) ex_quota_reach(5) ex_quota_reach(6)
                ex_quota_reach(8) other ru]
      code ex_quota_reach(8)
    by (simp add: ex_prepared quiet)
qed


end
